theory Spec2Isabelle
  imports Complex_Main
begin

section \<open>JavaScript numbers\<close>

text \<open>
  The sources compute with JavaScript numbers. A number is modelled as a finite real or one
  of the three exceptional values of IEEE 754. The operations of this section, which the
  timeline layout uses, are exact on finite numbers: rounding, overflow of finite results
  and the sign of zero are not modelled (a zero divisor is taken as the positive zero). The
  exceptional values are kept, since the layout can produce them. The distance functions
  further down round, and take the arithmetic of doubles as a parameter.
\<close>

datatype number = Fin real | PosInf | NegInf | NaN

fun js_add :: "number \<Rightarrow> number \<Rightarrow> number" where
  "js_add NaN _ = NaN"
| "js_add _ NaN = NaN"
| "js_add (Fin a) (Fin b) = Fin (a + b)"
| "js_add PosInf NegInf = NaN"
| "js_add NegInf PosInf = NaN"
| "js_add PosInf _ = PosInf"
| "js_add NegInf _ = NegInf"
| "js_add (Fin a) PosInf = PosInf"
| "js_add (Fin a) NegInf = NegInf"

definition signed_inf :: "bool \<Rightarrow> number" where
  "signed_inf positive = (if positive then PosInf else NegInf)"

fun js_mul :: "number \<Rightarrow> number \<Rightarrow> number" where
  "js_mul NaN _ = NaN"
| "js_mul _ NaN = NaN"
| "js_mul (Fin a) (Fin b) = Fin (a * b)"
| "js_mul (Fin a) PosInf = (if a = 0 then NaN else signed_inf (0 < a))"
| "js_mul (Fin a) NegInf = (if a = 0 then NaN else signed_inf (a < 0))"
| "js_mul PosInf (Fin b) = (if b = 0 then NaN else signed_inf (0 < b))"
| "js_mul NegInf (Fin b) = (if b = 0 then NaN else signed_inf (b < 0))"
| "js_mul PosInf PosInf = PosInf"
| "js_mul NegInf NegInf = PosInf"
| "js_mul PosInf NegInf = NegInf"
| "js_mul NegInf PosInf = NegInf"

fun js_div :: "number \<Rightarrow> number \<Rightarrow> number" where
  "js_div NaN _ = NaN"
| "js_div _ NaN = NaN"
| "js_div (Fin a) (Fin b) =
     (if b \<noteq> 0 then Fin (a / b) else if a = 0 then NaN else signed_inf (0 < a))"
| "js_div (Fin a) PosInf = Fin 0"
| "js_div (Fin a) NegInf = Fin 0"
| "js_div PosInf (Fin b) = signed_inf (0 \<le> b)"
| "js_div NegInf (Fin b) = signed_inf (b < 0)"
| "js_div PosInf PosInf = NaN"
| "js_div PosInf NegInf = NaN"
| "js_div NegInf PosInf = NaN"
| "js_div NegInf NegInf = NaN"

text \<open>The comparison \<open>x < y\<close>: false as soon as one side is NaN.\<close>

fun js_lt :: "number \<Rightarrow> number \<Rightarrow> bool" where
  "js_lt NaN _ = False"
| "js_lt _ NaN = False"
| "js_lt (Fin a) (Fin b) = (a < b)"
| "js_lt (Fin a) PosInf = True"
| "js_lt (Fin a) NegInf = False"
| "js_lt PosInf _ = False"
| "js_lt NegInf NegInf = False"
| "js_lt NegInf _ = True"

definition js_gt :: "number \<Rightarrow> number \<Rightarrow> bool" where
  "js_gt x y = js_lt y x"

text \<open>\<open>x === y\<close> on numbers: NaN is equal to nothing.\<close>

definition js_eq :: "number \<Rightarrow> number \<Rightarrow> bool" where
  "js_eq x y = (x \<noteq> NaN \<and> y \<noteq> NaN \<and> x = y)"

text \<open>\<open>Math.max(x, y)\<close> and \<open>Math.min(x, y)\<close>: NaN as soon as one argument is NaN.\<close>

definition math_max2 :: "number \<Rightarrow> number \<Rightarrow> number" where
  "math_max2 x y = (if x = NaN \<or> y = NaN then NaN else if js_lt x y then y else x)"

definition math_min2 :: "number \<Rightarrow> number \<Rightarrow> number" where
  "math_min2 x y = (if x = NaN \<or> y = NaN then NaN else if js_lt y x then y else x)"

text \<open>\<open>Math.min(...xs)\<close>: \<open>Infinity\<close> for no argument.\<close>

definition math_min :: "number list \<Rightarrow> number" where
  "math_min xs = foldl math_min2 PosInf xs"

text \<open>\<open>x || 0\<close> on a number: the falsy numbers are 0 and NaN.\<close>

definition or_zero :: "number \<Rightarrow> number" where
  "or_zero x = (if x = Fin 0 \<or> x = NaN then Fin 0 else x)"

section \<open>Itinerary data (mobile/src/services/api.ts)\<close>

datatype segment_type = Walk | Transit

text \<open>
  \<open>PlanSegment\<close>. Coordinates and ids are read from JSON, hence finite; an optional field
  that is absent is \<open>None\<close>. The duration is kept as a \<open>number\<close>.
\<close>

record PlanSegment =
  seg_type :: segment_type
  from_lat :: real
  from_lon :: real
  to_lat :: real
  to_lon :: real
  duration_minutes :: number
  from_stop_id :: "int option"
  to_stop_id :: "int option"
  trip_id :: "int option"

record Plan =
  estimated_duration_minutes :: number
  segments :: "PlanSegment list"

section \<open>Timeline layout (mobile/src/components/BottomSheet.tsx)\<close>

text \<open>
  \<open>fetchRouteOptions\<close>: the total duration stored in a route option. The plan's estimate is
  used unless it is 0 (or missing), then the sum of the segment durations; the result is at
  least 1.
\<close>

definition option_totalDuration :: "Plan \<Rightarrow> number" where
  "option_totalDuration plan =
     (let totalDuration = or_zero (estimated_duration_minutes plan);
          totalDuration =
            (if js_eq totalDuration (Fin 0) \<and> length (segments plan) > 0
             then foldl (\<lambda>sum segment. js_add sum (or_zero (duration_minutes segment)))
                    (Fin 0) (segments plan)
             else totalDuration)
      in math_max2 (Fin 1) totalDuration)"

record SegWidth =
  width :: number
  isTransit :: bool
  duration :: number

definition MIN_TRANSIT_WIDTH_PERCENT :: number where
  "MIN_TRANSIT_WIDTH_PERCENT = Fin 15"

definition MIN_WALK_WIDTH_PERCENT :: number where
  "MIN_WALK_WIDTH_PERCENT = Fin 8"

definition safeTotalDuration :: "number \<Rightarrow> number" where
  "safeTotalDuration totalDuration = (if js_gt totalDuration (Fin 0) then totalDuration else Fin 1)"

definition trueProportionalWidths :: "number \<Rightarrow> PlanSegment list \<Rightarrow> SegWidth list" where
  "trueProportionalWidths totalDuration segs =
     map (\<lambda>segment.
            \<lparr> width = js_mul (js_div (duration_minutes segment) (safeTotalDuration totalDuration))
                        (Fin 100),
              isTransit = (seg_type segment = Transit),
              duration = duration_minutes segment \<rparr>) segs"

definition smallestTransitWidth :: "SegWidth list \<Rightarrow> number" where
  "smallestTransitWidth ws =
     (let transitSegments = filter isTransit ws
      in if length transitSegments > 0 then math_min (map width transitSegments)
         else MIN_TRANSIT_WIDTH_PERCENT)"

definition scaleFactor :: "SegWidth list \<Rightarrow> number" where
  "scaleFactor ws =
     (if js_lt (smallestTransitWidth ws) MIN_TRANSIT_WIDTH_PERCENT
      then js_div MIN_TRANSIT_WIDTH_PERCENT (smallestTransitWidth ws)
      else Fin 1)"

definition scaledWidths :: "SegWidth list \<Rightarrow> SegWidth list" where
  "scaledWidths ws = map (\<lambda>seg. seg\<lparr> width := js_mul (width seg) (scaleFactor ws) \<rparr>) ws"

definition adjustedWidths :: "SegWidth list \<Rightarrow> SegWidth list" where
  "adjustedWidths sws =
     map (\<lambda>seg. if \<not> isTransit seg
                 then seg\<lparr> width := math_max2 (width seg) MIN_WALK_WIDTH_PERCENT \<rparr>
                 else seg) sws"

definition totalWidth :: "SegWidth list \<Rightarrow> number" where
  "totalWidth aws = foldl (\<lambda>sum seg. js_add sum (width seg)) (Fin 0) aws"

definition finalWidths_of :: "SegWidth list \<Rightarrow> SegWidth list" where
  "finalWidths_of aws =
     (if js_gt (totalWidth aws) (Fin 100)
      then (let finalScaleFactor = js_div (Fin 100) (totalWidth aws)
            in map (\<lambda>seg. seg\<lparr> width := js_mul (width seg) finalScaleFactor \<rparr>) aws)
      else aws)"

text \<open>The whole computation of the route option timeline, steps 1 to 6.\<close>

definition adjusted :: "number \<Rightarrow> PlanSegment list \<Rightarrow> SegWidth list" where
  "adjusted totalDuration segs =
     adjustedWidths (scaledWidths (trueProportionalWidths totalDuration segs))"

definition finalWidths :: "number \<Rightarrow> PlanSegment list \<Rightarrow> SegWidth list" where
  "finalWidths totalDuration segs = finalWidths_of (adjusted totalDuration segs)"

text \<open>The widths computed for a plan: \<open>option.totalDuration\<close> and \<open>option.plan.segments\<close>.\<close>

definition timeline_widths :: "Plan \<Rightarrow> number list" where
  "timeline_widths plan = map width (finalWidths (option_totalDuration plan) (segments plan))"

text \<open>A leg given by its class and duration alone, for the examples.\<close>

definition mk_segment :: "segment_type \<Rightarrow> number \<Rightarrow> PlanSegment" where
  "mk_segment ty d =
     \<lparr> seg_type = ty, from_lat = 0, from_lon = 0, to_lat = 0, to_lon = 0,
       duration_minutes = d, from_stop_id = None, to_stop_id = None, trip_id = None \<rparr>"

text \<open>\<open>x <= y\<close> on numbers, and the notions used to state the properties of the layout.\<close>

definition js_le :: "number \<Rightarrow> number \<Rightarrow> bool" where
  "js_le x y = (js_lt x y \<or> js_eq x y)"

text \<open>A finite positive number, and the real value of a finite number.\<close>

definition finite_positive :: "number \<Rightarrow> bool" where
  "finite_positive x = (case x of Fin a \<Rightarrow> 0 < a | _ \<Rightarrow> False)"

definition fin_val :: "number \<Rightarrow> real" where
  "fin_val x = (case x of Fin a \<Rightarrow> a | _ \<Rightarrow> 0)"




definition seg_width :: "(PlanSegment \<Rightarrow> real) \<Rightarrow> PlanSegment \<Rightarrow> SegWidth" where
  "seg_width f s =
     \<lparr> width = Fin (f s), isTransit = (seg_type s = Transit), duration = duration_minutes s \<rparr>"




section \<open>Great-circle distance and nearest stop (app/utils/routes.ts)\<close>

text \<open>
  The distance is computed in IEEE doubles, and its properties turn on rounding: the
  haversine term, which lies in \<open>[0, 1]\<close> over the reals, can round to a double above 1.
  The arithmetic of doubles is therefore a parameter of the distance functions:
  \<open>round_d\<close> rounds the exact result of an addition, subtraction, multiplication, division
  or square root to a double, \<open>sin_d\<close>, \<open>cos_d\<close> and \<open>atan2_d\<close> are \<open>Math.sin\<close>, \<open>Math.cos\<close>
  and \<open>Math.atan2\<close> on finite doubles, and \<open>pi_d\<close> is \<open>Math.PI\<close>. Coordinates are finite
  doubles; overflow cannot occur on degrees and is not modelled.
\<close>

record double_arith =
  round_d :: "real \<Rightarrow> real"
  sin_d :: "real \<Rightarrow> real"
  cos_d :: "real \<Rightarrow> real"
  atan2_d :: "real \<Rightarrow> real \<Rightarrow> real"
  pi_d :: real

definition d_add :: "double_arith \<Rightarrow> real \<Rightarrow> real \<Rightarrow> real" where
  "d_add fp x y = round_d fp (x + y)"

definition d_sub :: "double_arith \<Rightarrow> real \<Rightarrow> real \<Rightarrow> real" where
  "d_sub fp x y = round_d fp (x - y)"

definition d_mul :: "double_arith \<Rightarrow> real \<Rightarrow> real \<Rightarrow> real" where
  "d_mul fp x y = round_d fp (x * y)"

definition d_div :: "double_arith \<Rightarrow> real \<Rightarrow> real \<Rightarrow> real" where
  "d_div fp x y = round_d fp (x / y)"

text \<open>Multiplication and division of numbers: rounded on finite operands, as before otherwise.\<close>

definition n_mul :: "double_arith \<Rightarrow> number \<Rightarrow> number \<Rightarrow> number" where
  "n_mul fp x y = (case (x, y) of (Fin a, Fin b) \<Rightarrow> Fin (d_mul fp a b) | _ \<Rightarrow> js_mul x y)"

definition n_div :: "double_arith \<Rightarrow> number \<Rightarrow> number \<Rightarrow> number" where
  "n_div fp x y =
     (case (x, y) of
        (Fin a, Fin b) \<Rightarrow> (if b \<noteq> 0 then Fin (d_div fp a b) else js_div x y)
      | _ \<Rightarrow> js_div x y)"

text \<open>\<open>Math.sqrt\<close>: NaN below zero.\<close>

definition math_sqrt :: "double_arith \<Rightarrow> number \<Rightarrow> number" where
  "math_sqrt fp x =
     (case x of Fin a \<Rightarrow> (if a < 0 then NaN else Fin (round_d fp (sqrt a)))
              | PosInf \<Rightarrow> PosInf | NegInf \<Rightarrow> NaN | NaN \<Rightarrow> NaN)"

text \<open>
  \<open>Math.atan2(y, x)\<close>: NaN as soon as one argument is NaN, \<open>atan2_d\<close> on finite arguments,
  the multiples of \<open>Math.PI\<close> of the standard on infinite ones.
\<close>

fun math_atan2 :: "double_arith \<Rightarrow> number \<Rightarrow> number \<Rightarrow> number" where
  "math_atan2 fp NaN _ = NaN"
| "math_atan2 fp _ NaN = NaN"
| "math_atan2 fp (Fin y) (Fin x) = Fin (atan2_d fp y x)"
| "math_atan2 fp (Fin y) PosInf = Fin 0"
| "math_atan2 fp (Fin y) NegInf = Fin (if 0 \<le> y then pi_d fp else - pi_d fp)"
| "math_atan2 fp PosInf (Fin x) = Fin (pi_d fp / 2)"
| "math_atan2 fp NegInf (Fin x) = Fin (- (pi_d fp / 2))"
| "math_atan2 fp PosInf PosInf = Fin (pi_d fp / 4)"
| "math_atan2 fp PosInf NegInf = Fin (round_d fp (3 * pi_d fp / 4))"
| "math_atan2 fp NegInf PosInf = Fin (- (pi_d fp / 4))"
| "math_atan2 fp NegInf NegInf = Fin (- round_d fp (3 * pi_d fp / 4))"

text \<open>\<open>Math.round\<close>: the nearest integer, halves upwards.\<close>

definition math_round :: "number \<Rightarrow> number" where
  "math_round x = (case x of Fin a \<Rightarrow> Fin (of_int \<lfloor>a + 1 / 2\<rfloor>) | _ \<Rightarrow> x)"

text \<open>A point is a pair \<open>[lat, lng]\<close> of degrees.\<close>

type_synonym RoutePoint = "real \<times> real"

definition calculateDistance :: "double_arith \<Rightarrow> RoutePoint \<Rightarrow> RoutePoint \<Rightarrow> number" where
  "calculateDistance fp point1 point2 =
     (let (lat1, lng1) = point1;
          (lat2, lng2) = point2;
          R = 6371;
          dLat = d_div fp (d_mul fp (d_sub fp lat2 lat1) (pi_d fp)) 180;
          dLng = d_div fp (d_mul fp (d_sub fp lng2 lng1) (pi_d fp)) 180;
          a = d_add fp
                (d_mul fp (sin_d fp (d_div fp dLat 2)) (sin_d fp (d_div fp dLat 2)))
                (d_mul fp
                   (d_mul fp
                      (d_mul fp (cos_d fp (d_div fp (d_mul fp lat1 (pi_d fp)) 180))
                                (cos_d fp (d_div fp (d_mul fp lat2 (pi_d fp)) 180)))
                      (sin_d fp (d_div fp dLng 2)))
                   (sin_d fp (d_div fp dLng 2)));
          c = n_mul fp (Fin 2)
                (math_atan2 fp (math_sqrt fp (Fin a)) (math_sqrt fp (Fin (d_sub fp 1 a))))
      in n_mul fp (Fin R) c)"

text \<open>
  \<open>calculateWalkingTime\<close> of mobile/src/components/BottomSheet.tsx: the same formula in
  metres, divided by the walking speed and rounded (the Greek names of the source are
  spelled out).
\<close>

definition calculateWalkingTime ::
  "double_arith \<Rightarrow> real \<Rightarrow> real \<Rightarrow> real \<Rightarrow> real \<Rightarrow> number" where
  "calculateWalkingTime fp lat1 lon1 lat2 lon2 =
     (let R = 6371000;
          phi1 = d_div fp (d_mul fp lat1 (pi_d fp)) 180;
          phi2 = d_div fp (d_mul fp lat2 (pi_d fp)) 180;
          d_phi = d_div fp (d_mul fp (d_sub fp lat2 lat1) (pi_d fp)) 180;
          d_lambda = d_div fp (d_mul fp (d_sub fp lon2 lon1) (pi_d fp)) 180;
          a = d_add fp
                (d_mul fp (sin_d fp (d_div fp d_phi 2)) (sin_d fp (d_div fp d_phi 2)))
                (d_mul fp
                   (d_mul fp (d_mul fp (cos_d fp phi1) (cos_d fp phi2))
                      (sin_d fp (d_div fp d_lambda 2)))
                   (sin_d fp (d_div fp d_lambda 2)));
          c = n_mul fp (Fin 2)
                (math_atan2 fp (math_sqrt fp (Fin a)) (math_sqrt fp (Fin (d_sub fp 1 a))));
          distance = n_mul fp (Fin R) c;
          walkingSpeedMetersPerMinute = 80
      in math_round (n_div fp distance (Fin walkingSpeedMetersPerMinute)))"

text \<open>
  \<open>Location\<close> and \<open>BusStop\<close> of types/locations.ts. The fields \<open>id\<close> and \<open>name\<close> are
  named \<open>loc_id\<close> and \<open>loc_name\<close> here; the \<open>type\<close> of a bus stop is the constant
  \<open>'bus-stop'\<close> and is left out. A decimal literal stands for the double it denotes.
\<close>

record Location =
  loc_id :: string
  loc_name :: string
  lat :: real
  lng :: real

type_synonym BusStop = Location

definition BUS_STOPS :: "BusStop list" where
  "BUS_STOPS =
     [ \<lparr> loc_id = ''wash-square-stop-1'', loc_name = ''Washington Square Stop'',
         lat = 40.7305, lng = -73.9975 \<rparr>,
       \<lparr> loc_id = ''wash-square-stop-2'', loc_name = ''Washington Square North Stop'',
         lat = 40.7320, lng = -73.9965 \<rparr>,
       \<lparr> loc_id = ''brooklyn-tandon-stop-1'', loc_name = ''Tandon School Stop'',
         lat = 40.6945, lng = -73.9870 \<rparr>,
       \<lparr> loc_id = ''brooklyn-tandon-stop-2'', loc_name = ''Tandon MetroTech Stop'',
         lat = 40.6930, lng = -73.9855 \<rparr> ]"

text \<open>Values thrown by the runtime or by the code.\<close>

datatype js_error = TypeError | SyntaxError | ErrorMsg string

text \<open>
  \<open>findNearestBusStop\<close>. The source scans the module constant \<open>BUS_STOPS\<close>; the catalog is a
  parameter here, so that the function can be stated for any catalog, and the source's
  function is \<open>findNearestBusStop fp BUS_STOPS\<close>. With an empty catalog \<open>BUS_STOPS[0]\<close> is
  \<open>undefined\<close> and reading its \<open>lat\<close> throws a TypeError. The loop visits every stop, the
  first one again.
\<close>

fun nearest_loop ::
  "double_arith \<Rightarrow> RoutePoint \<Rightarrow> BusStop list \<Rightarrow> BusStop \<Rightarrow> number \<Rightarrow> BusStop" where
  "nearest_loop fp userLocation [] nearestStop minDistance = nearestStop"
| "nearest_loop fp userLocation (stop # rest) nearestStop minDistance =
     (let distance = calculateDistance fp userLocation (lat stop, lng stop)
      in if js_lt distance minDistance
         then nearest_loop fp userLocation rest stop distance
         else nearest_loop fp userLocation rest nearestStop minDistance)"

definition findNearestBusStop ::
  "double_arith \<Rightarrow> BusStop list \<Rightarrow> RoutePoint \<Rightarrow> js_error + BusStop" where
  "findNearestBusStop fp catalog userLocation =
     (case catalog of
        [] \<Rightarrow> Inl TypeError
      | nearestStop # _ \<Rightarrow>
          Inr (nearest_loop fp userLocation catalog nearestStop
                 (calculateDistance fp userLocation (lat nearestStop, lng nearestStop))))"

text \<open>
  The haversine term \<open>a\<close> both distance functions compute, and what they compute from it
  for an Earth radius \<open>R\<close>.
\<close>

definition haversine_term :: "double_arith \<Rightarrow> real \<Rightarrow> real \<Rightarrow> real \<Rightarrow> real \<Rightarrow> real" where
  "haversine_term fp lat1 lng1 lat2 lng2 =
     (let dLat = d_div fp (d_mul fp (d_sub fp lat2 lat1) (pi_d fp)) 180;
          dLng = d_div fp (d_mul fp (d_sub fp lng2 lng1) (pi_d fp)) 180
      in d_add fp
           (d_mul fp (sin_d fp (d_div fp dLat 2)) (sin_d fp (d_div fp dLat 2)))
           (d_mul fp
              (d_mul fp
                 (d_mul fp (cos_d fp (d_div fp (d_mul fp lat1 (pi_d fp)) 180))
                           (cos_d fp (d_div fp (d_mul fp lat2 (pi_d fp)) 180)))
                 (sin_d fp (d_div fp dLng 2)))
              (sin_d fp (d_div fp dLng 2))))"

definition great_circle :: "double_arith \<Rightarrow> real \<Rightarrow> real \<Rightarrow> number" where
  "great_circle fp R a =
     n_mul fp (Fin R)
       (n_mul fp (Fin 2)
          (math_atan2 fp (math_sqrt fp (Fin a)) (math_sqrt fp (Fin (d_sub fp 1 a)))))"

text \<open>
  Exact arithmetic: nothing is rounded, and the functions are those of the reals.
  \<open>atan2_real y x\<close> is the angle of the point \<open>(x, y)\<close>, in \<open>(-\<pi>, \<pi>]\<close>.
\<close>

definition atan2_real :: "real \<Rightarrow> real \<Rightarrow> real" where
  "atan2_real y x =
     (if 0 < x then arctan (y / x)
      else if x < 0 then (if 0 \<le> y then arctan (y / x) + pi else arctan (y / x) - pi)
      else if 0 < y then pi / 2
      else if y < 0 then - (pi / 2)
      else 0)"

definition exact_arith :: double_arith where
  "exact_arith =
     \<lparr> round_d = (\<lambda>x. x), sin_d = sin, cos_d = cos, atan2_d = atan2_real, pi_d = pi \<rparr>"

text \<open>
  An arithmetic that is exact but for a sine that errs upwards by one part in \<open>2^53\<close>: it
  stands for the rounding that takes the haversine term of near-antipodal points above 1.
\<close>

definition upward_sine_arith :: double_arith where
  "upward_sine_arith = exact_arith\<lparr> sin_d := (\<lambda>x. sin x * (1 + 1 / 2 ^ 53)) \<rparr>"

text \<open>The haversine term over the reals, and the central angle computed from it.\<close>

definition hav :: "real \<Rightarrow> real \<Rightarrow> real \<Rightarrow> real \<Rightarrow> real" where
  "hav lat1 lng1 lat2 lng2 =
     sin (((lat2 - lat1) * pi) / 180 / 2) * sin (((lat2 - lat1) * pi) / 180 / 2) +
     cos ((lat1 * pi) / 180) * cos ((lat2 * pi) / 180) *
     sin (((lng2 - lng1) * pi) / 180 / 2) * sin (((lng2 - lng1) * pi) / 180 / 2)"

definition central_angle :: "real \<Rightarrow> real" where
  "central_angle a =
     2 * (if 0 < sqrt (1 - a) then arctan (sqrt a / sqrt (1 - a))
          else if 0 < sqrt a then pi / 2 else 0)"

text \<open>The computed distance from a point to a stop, and the first index of a minimum.\<close>

definition stop_distance :: "double_arith \<Rightarrow> RoutePoint \<Rightarrow> BusStop \<Rightarrow> number" where
  "stop_distance fp p s = calculateDistance fp p (lat s, lng s)"

definition first_min :: "('a \<Rightarrow> real) \<Rightarrow> 'a list \<Rightarrow> nat \<Rightarrow> bool" where
  "first_min d xs i =
     (i < length xs \<and> (\<forall>j<length xs. d (xs ! i) \<le> d (xs ! j)) \<and> (\<forall>j<i. d (xs ! i) < d (xs ! j)))"

text \<open>
  The catalog of the example, \<open>[(0, 0, "A"), (0, 0.001, "B")]\<close>, and a stop at the antipode
  of \<open>A\<close>.
\<close>

definition facility_A :: BusStop where
  "facility_A = \<lparr> loc_id = ''A'', loc_name = ''A'', lat = 0, lng = 0 \<rparr>"

definition facility_B :: BusStop where
  "facility_B = \<lparr> loc_id = ''B'', loc_name = ''B'', lat = 0, lng = 0.001 \<rparr>"

definition antipode_stop :: BusStop where
  "antipode_stop = \<lparr> loc_id = ''X'', loc_name = ''X'', lat = 0, lng = 180 \<rparr>"

section \<open>The road-routing service\<close>

text \<open>
  What \<open>await fetch(url)\<close> followed by \<open>response.json()\<close> can give: the request is rejected
  (transport failure), or there is a response with its \<open>ok\<close> flag and a body, \<open>None\<close> when
  the body is not JSON (\<open>response.json()\<close> rejects).
\<close>

datatype 'a http_reply = FetchRejected | HttpReply bool "'a option"

text \<open>
  The body of an OSRM answer: \<open>code\<close>, and \<open>routes\<close> (\<open>None\<close> when missing). A route is its
  \<open>geometry.coordinates\<close>, pairs \<open>[lng, lat]\<close>, \<open>None\<close> when the route carries no such list.
\<close>

type_synonym osrm_route = "(real \<times> real) list option"

record osrm_data =
  code :: string
  routes :: "osrm_route list option"

text \<open>
  The service answers a request, given in the order of the URL
  (\<open>fromLon,fromLat;toLon,toLat\<close>). It is a parameter of every function that fetches.
\<close>

type_synonym osrm_service = "real \<Rightarrow> real \<Rightarrow> real \<Rightarrow> real \<Rightarrow> osrm_data http_reply"

text \<open>The body of the \<open>try\<close> block shared by both clients, up to the coordinate list.\<close>

definition osrm_coordinates :: "osrm_data http_reply \<Rightarrow> js_error + (real \<times> real) list" where
  "osrm_coordinates reply =
     (case reply of
        FetchRejected \<Rightarrow> Inl TypeError
      | HttpReply ok body \<Rightarrow>
          if \<not> ok then Inl (ErrorMsg ''OSRM API error'')
          else (case body of
                  None \<Rightarrow> Inl SyntaxError
                | Some data \<Rightarrow>
                    if code data \<noteq> ''Ok'' \<or> routes data = None \<or> routes data = Some []
                    then Inl (ErrorMsg ''No route found'')
                    else (case routes data of
                            Some (Some coordinates # _) \<Rightarrow> Inr coordinates
                          | _ \<Rightarrow> Inl TypeError)))"

section \<open>Web client (app/utils/routes.ts)\<close>

definition fetchRouteFromOSRM :: "osrm_service \<Rightarrow> RoutePoint \<Rightarrow> RoutePoint \<Rightarrow> RoutePoint list" where
  "fetchRouteFromOSRM osrm start end' =
     (let (startLat, startLng) = start;
          (endLat, endLng) = end'
      in case osrm_coordinates (osrm startLng startLat endLng endLat) of
           Inr coordinates \<Rightarrow> map (\<lambda>(lng, lat). (lat, lng)) coordinates
         | Inl error \<Rightarrow> [(startLat, startLng), (endLat, endLng)])"

definition getRouteColor :: "string \<Rightarrow> string" where
  "getRouteColor destinationId =
     (if destinationId = ''bern-dibner'' then ''#8b5cf6''
      else if destinationId = ''paulson-center'' then ''#10b981''
      else if destinationId = ''washington-square'' then ''#f59e0b''
      else ''#3b82f6'')"

record WebRouteSegment =
  web_points :: "RoutePoint list"
  web_color :: string

text \<open>
  \<open>generateShuttleRoute\<close>: the nearest stop is looked up outside any \<open>try\<close>, so its failure
  is the failure of the whole call.
\<close>

definition generateShuttleRoute ::
  "double_arith \<Rightarrow> osrm_service \<Rightarrow> BusStop list \<Rightarrow> RoutePoint \<Rightarrow> Location
     \<Rightarrow> js_error + WebRouteSegment list" where
  "generateShuttleRoute fp osrm catalog userLocation destination =
     (case findNearestBusStop fp catalog userLocation of
        Inl error \<Rightarrow> Inl error
      | Inr nearestStop \<Rightarrow>
          (let routeColor = getRouteColor (loc_id destination);
               segment1 = fetchRouteFromOSRM osrm userLocation (lat nearestStop, lng nearestStop);
               segment2 = fetchRouteFromOSRM osrm (lat nearestStop, lng nearestStop)
                            (lat destination, lng destination)
           in Inr [ \<lparr> web_points = segment1, web_color = ''#6b7280'' \<rparr>,
                    \<lparr> web_points = segment2, web_color = routeColor \<rparr> ]))"

section \<open>Mobile client: the transit API (mobile/src/services/api.ts)\<close>

text \<open>
  \<open>Stop\<close>. The coordinates \<open>lat\<close> and \<open>lon\<close> are named \<open>stop_lat\<close> and \<open>stop_lon\<close> here,
  \<open>lat\<close> being a field of \<open>Location\<close> already.
\<close>

record Stop =
  stop_id :: int
  stop_name :: string
  stop_description :: "string option"
  stop_lat :: real
  stop_lon :: real

text \<open>The body of \<open>/v1/trips/{tripId}/stops\<close>: its \<open>stops\<close> field, \<open>None\<close> when missing.\<close>

record trip_stops_data =
  stops :: "Stop list option"

type_synonym trip_stops_service = "int \<Rightarrow> trip_stops_data http_reply"

definition getTripStops_try :: "trip_stops_service \<Rightarrow> int \<Rightarrow> js_error + Stop list" where
  "getTripStops_try api tripId =
     (case api tripId of
        FetchRejected \<Rightarrow> Inl TypeError
      | HttpReply ok body \<Rightarrow>
          if \<not> ok then Inr []
          else (case body of
                  None \<Rightarrow> Inl SyntaxError
                | Some data \<Rightarrow> Inr (case stops data of None \<Rightarrow> [] | Some ss \<Rightarrow> ss)))"

text \<open>\<open>getTripStops\<close>: the \<open>catch\<close> turns every error into the empty list.\<close>

definition getTripStops :: "trip_stops_service \<Rightarrow> int \<Rightarrow> js_error + Stop list" where
  "getTripStops api tripId =
     (case getTripStops_try api tripId of Inl error \<Rightarrow> Inr [] | Inr result \<Rightarrow> Inr result)"

text \<open>\<open>Array.prototype.findIndex\<close>: the first index whose element satisfies \<open>P\<close>, or -1.\<close>

fun findIndex_from :: "('a \<Rightarrow> bool) \<Rightarrow> 'a list \<Rightarrow> int \<Rightarrow> int" where
  "findIndex_from P [] i = - 1"
| "findIndex_from P (x # xs) i = (if P x then i else findIndex_from P xs (i + 1))"

definition findIndex :: "('a \<Rightarrow> bool) \<Rightarrow> 'a list \<Rightarrow> int" where
  "findIndex P xs = findIndex_from P xs 0"

text \<open>
  \<open>Array.prototype.slice(start, end)\<close>: negative bounds count from the end, bounds are
  clipped to the array. \<open>slice_from\<close> is \<open>slice(start)\<close>, up to the end.
\<close>

definition slice :: "'a list \<Rightarrow> int \<Rightarrow> int \<Rightarrow> 'a list" where
  "slice xs start end' =
     (let n = int (length xs);
          s = (if start < 0 then max (n + start) 0 else min start n);
          e = (if end' < 0 then max (n + end') 0 else min end' n)
      in take (nat (e - s)) (drop (nat s) xs))"

definition slice_from :: "'a list \<Rightarrow> int \<Rightarrow> 'a list" where
  "slice_from xs start = slice xs start (int (length xs))"

text \<open>\<open>.filter(Boolean)\<close> on a list of results of \<open>find\<close>: the ones that are not \<open>undefined\<close>.\<close>

fun filter_Boolean :: "'a option list \<Rightarrow> 'a list" where
  "filter_Boolean [] = []"
| "filter_Boolean (None # xs) = filter_Boolean xs"
| "filter_Boolean (Some x # xs) = x # filter_Boolean xs"

text \<open>The fallback written three times in \<open>getStopsBetween\<close>: the two endpoints found in \<open>allStops\<close>.\<close>

definition endpoint_stops :: "int \<Rightarrow> int \<Rightarrow> Stop list \<Rightarrow> Stop list" where
  "endpoint_stops fromStopId toStopId allStops =
     (let fromStop = find (\<lambda>s. stop_id s = fromStopId) allStops;
          toStop = find (\<lambda>s. stop_id s = toStopId) allStops
      in filter_Boolean [fromStop, toStop])"

definition getStopsBetween_try ::
  "trip_stops_service \<Rightarrow> int \<Rightarrow> int \<Rightarrow> int \<Rightarrow> Stop list \<Rightarrow> js_error + Stop list" where
  "getStopsBetween_try api tripId fromStopId toStopId allStops =
     (case getTripStops api tripId of
        Inl error \<Rightarrow> Inl error
      | Inr tripStops \<Rightarrow>
          if length tripStops = 0 then Inr (endpoint_stops fromStopId toStopId allStops)
          else
            (let fromIndex = findIndex (\<lambda>s. stop_id s = fromStopId) tripStops;
                 toIndex = findIndex (\<lambda>s. stop_id s = toStopId) tripStops
             in if fromIndex = - 1 \<or> toIndex = - 1
                then Inr (endpoint_stops fromStopId toStopId allStops)
                else if fromIndex \<le> toIndex
                then Inr (slice tripStops fromIndex (toIndex + 1))
                else Inr (rev (slice tripStops toIndex (fromIndex + 1)))))"

definition getStopsBetween ::
  "trip_stops_service \<Rightarrow> int \<Rightarrow> int \<Rightarrow> int \<Rightarrow> Stop list \<Rightarrow> js_error + Stop list" where
  "getStopsBetween api tripId fromStopId toStopId allStops =
     (case getStopsBetween_try api tripId fromStopId toStopId allStops of
        Inl error \<Rightarrow> Inr (endpoint_stops fromStopId toStopId allStops)
      | Inr result \<Rightarrow> Inr result)"

section \<open>Mobile client: route geometry (mobile/src/components/Map.tsx)\<close>

record LatLng =
  latitude :: real
  longitude :: real

record RouteSegment =
  points :: "LatLng list"
  color :: string
  isDashed :: bool

definition fetchOSRMRoute :: "osrm_service \<Rightarrow> real \<Rightarrow> real \<Rightarrow> real \<Rightarrow> real \<Rightarrow> LatLng list" where
  "fetchOSRMRoute osrm fromLat fromLon toLat toLon =
     (case osrm_coordinates (osrm fromLon fromLat toLon toLat) of
        Inr coordinates \<Rightarrow> map (\<lambda>(lng, lat). \<lparr> latitude = lat, longitude = lng \<rparr>) coordinates
      | Inl error \<Rightarrow> [ \<lparr> latitude = fromLat, longitude = fromLon \<rparr>,
                       \<lparr> latitude = toLat, longitude = toLon \<rparr> ])"

text \<open>
  The loop over consecutive stops of a transit leg: \<open>i\<close> is the loop counter, \<open>allPoints\<close>
  the list the loop pushes to.
\<close>

function stitch_loop :: "osrm_service \<Rightarrow> Stop list \<Rightarrow> nat \<Rightarrow> LatLng list \<Rightarrow> LatLng list" where
  "stitch_loop osrm routeStops i allPoints =
     (if int i < int (length routeStops) - 1
      then (let fromStop = routeStops ! i;
                toStop = routeStops ! (i + 1);
                segmentPoints = fetchOSRMRoute osrm (stop_lat fromStop) (stop_lon fromStop)
                                  (stop_lat toStop) (stop_lon toStop)
            in stitch_loop osrm routeStops (i + 1)
                 (allPoints @ (if i = 0 then segmentPoints else slice_from segmentPoints 1)))
      else allPoints)"
  by pat_completeness auto
termination
  by (relation "measure (\<lambda>(osrm, routeStops, i, allPoints). length routeStops - i)") auto

text \<open>An optional id in a condition: \<open>undefined\<close> and 0 are falsy.\<close>

definition truthy :: "int option \<Rightarrow> bool" where
  "truthy x = (case x of None \<Rightarrow> False | Some n \<Rightarrow> n \<noteq> 0)"

definition id_value :: "int option \<Rightarrow> int" where
  "id_value x = (case x of None \<Rightarrow> 0 | Some n \<Rightarrow> n)"

text \<open>The single query between the coordinates of the segment, drawn as transit.\<close>

definition direct_transit :: "osrm_service \<Rightarrow> PlanSegment \<Rightarrow> RouteSegment" where
  "direct_transit osrm segment =
     \<lparr> points = fetchOSRMRoute osrm (from_lat segment) (from_lon segment)
                  (to_lat segment) (to_lon segment),
       color = ''#3b82f6'', isDashed = False \<rparr>"

text \<open>The body of the loop of \<open>convertPlanToSegments\<close>: the segment pushed for one leg.\<close>

definition convert_segment ::
  "osrm_service \<Rightarrow> trip_stops_service \<Rightarrow> Stop list \<Rightarrow> PlanSegment \<Rightarrow> RouteSegment" where
  "convert_segment osrm api allStops segment =
     (case seg_type segment of
        Walk \<Rightarrow>
          \<lparr> points = fetchOSRMRoute osrm (from_lat segment) (from_lon segment)
                       (to_lat segment) (to_lon segment),
            color = ''#6b7280'', isDashed = True \<rparr>
      | Transit \<Rightarrow>
          if truthy (trip_id segment) \<and> truthy (from_stop_id segment) \<and> truthy (to_stop_id segment)
          then (case getStopsBetween api (id_value (trip_id segment))
                       (id_value (from_stop_id segment)) (id_value (to_stop_id segment)) allStops of
                  Inl error \<Rightarrow> direct_transit osrm segment
                | Inr routeStops \<Rightarrow>
                    if length routeStops \<ge> 2
                    then \<lparr> points = stitch_loop osrm routeStops 0 [],
                           color = ''#3b82f6'', isDashed = False \<rparr>
                    else direct_transit osrm segment)
          else direct_transit osrm segment)"

definition convertPlanToSegments ::
  "osrm_service \<Rightarrow> trip_stops_service \<Rightarrow> Stop list \<Rightarrow> Plan \<Rightarrow> RouteSegment list" where
  "convertPlanToSegments osrm api allStops plan =
     foldl (\<lambda>segments segment. segments @ [convert_segment osrm api allStops segment])
       [] (segments plan)"

section \<open>Notions used to state the properties of the clients\<close>

text \<open>
  The answers of the routing service on which the \<open>try\<close> block of the fetch throws: the
  request is rejected, the status is not a success, the body is not JSON, the code is not
  \<open>Ok\<close>, the route list is missing or empty, or the first route has no coordinate list.
\<close>

definition osrm_failed :: "osrm_data http_reply \<Rightarrow> bool" where
  "osrm_failed reply =
     (case reply of
        FetchRejected \<Rightarrow> True
      | HttpReply ok body \<Rightarrow>
          \<not> ok \<or> (case body of
                      None \<Rightarrow> True
                    | Some data \<Rightarrow>
                        code data \<noteq> ''Ok'' \<or> routes data = None \<or> routes data = Some [] \<or>
                        (\<exists>rest. routes data = Some (None # rest))))"

text \<open>\<open>i\<close> is the first index of \<open>xs\<close> whose element satisfies \<open>P\<close>.\<close>

definition first_index :: "('a \<Rightarrow> bool) \<Rightarrow> 'a list \<Rightarrow> nat \<Rightarrow> bool" where
  "first_index P xs i = (i < length xs \<and> P (xs ! i) \<and> (\<forall>j<i. \<not> P (xs ! j)))"

text \<open>The answers of the trip-stops endpoint that give no listing.\<close>

definition lookup_failed :: "trip_stops_data http_reply \<Rightarrow> bool" where
  "lookup_failed reply =
     (case reply of
        FetchRejected \<Rightarrow> True
      | HttpReply ok body \<Rightarrow>
          \<not> ok \<or> (case body of None \<Rightarrow> True | Some data \<Rightarrow> stops data = None))"

text \<open>A trip of four stops, served for trip 7 only; every other trip id is rejected.\<close>

definition mk_stop :: "int \<Rightarrow> real \<Rightarrow> real \<Rightarrow> Stop" where
  "mk_stop n la lo =
     \<lparr> stop_id = n, stop_name = [], stop_description = None, stop_lat = la, stop_lon = lo \<rparr>"

definition example_trip :: "Stop list" where
  "example_trip = [mk_stop 1 0 0, mk_stop 2 0 2, mk_stop 3 0 3, mk_stop 4 0 4]"

definition example_api :: trip_stops_service where
  "example_api tripId =
     (if tripId = 7 then HttpReply True (Some \<lparr> stops = Some example_trip \<rparr>) else FetchRejected)"

text \<open>
  The polyline fetched at step \<open>i\<close> of the stitching loop, and the list of all of them.
\<close>

definition sub_polyline :: "osrm_service \<Rightarrow> Stop list \<Rightarrow> nat \<Rightarrow> LatLng list" where
  "sub_polyline osrm routeStops i =
     fetchOSRMRoute osrm (stop_lat (routeStops ! i)) (stop_lon (routeStops ! i))
       (stop_lat (routeStops ! (i + 1))) (stop_lon (routeStops ! (i + 1)))"

definition sub_polylines :: "osrm_service \<Rightarrow> Stop list \<Rightarrow> LatLng list list" where
  "sub_polylines osrm routeStops = map (sub_polyline osrm routeStops) [0..<length routeStops - 1]"



text \<open>
  Example services: the one of the stitching example, one whose routes start and end
  elsewhere, one that rejects every request.
\<close>

definition pt :: "real \<Rightarrow> real \<Rightarrow> LatLng" where
  "pt la lo = \<lparr> latitude = la, longitude = lo \<rparr>"

definition example_osrm :: osrm_service where
  "example_osrm fromLon fromLat toLon toLat =
     (if fromLon = 0 \<and> toLon = 2
      then HttpReply True (Some \<lparr> code = ''Ok'', routes = Some [Some [(0, 0), (1, 0), (2, 0)]] \<rparr>)
      else if fromLon = 2 \<and> toLon = 3
      then HttpReply True (Some \<lparr> code = ''Ok'', routes = Some [Some [(2, 0), (3, 0)]] \<rparr>)
      else FetchRejected)"


definition failing_osrm :: osrm_service where
  "failing_osrm fromLon fromLat toLon toLat = FetchRejected"

text \<open>A transit leg of trip \<open>trip\<close> between two stop ids, and a plan with a walk and such a leg.\<close>

definition transit_leg :: "int \<Rightarrow> int \<Rightarrow> int \<Rightarrow> PlanSegment" where
  "transit_leg trip origin dest =
     (mk_segment Transit (Fin 10))
       \<lparr> trip_id := Some trip, from_stop_id := Some origin, to_stop_id := Some dest \<rparr>"

definition example_plan :: Plan where
  "example_plan =
     \<lparr> estimated_duration_minutes = Fin 15,
       segments = [mk_segment Walk (Fin 5), transit_leg 7 1 3] \<rparr>"

section \<open>The route-loading effects of the two map components\<close>

text \<open>
  Both components load the route in a React effect. What happens to a component is a
  sequence of events: its props change (the effect's dependencies change, so the cleanup
  of the previous run is called, if it returned one, and the effect runs again), or the
  resolution started by the \<open>k\<close>-th load completes. Resolutions complete in any order.
\<close>

datatype 'p event = Props 'p | Resolved nat

text \<open>
  Mobile (mobile/src/components/Map.tsx). Every run of the effect with a selected route
  starts a load with its own \<open>cancelled\<close> flag and returns the cleanup that sets it;
  \<open>cleanup\<close> is the load whose cleanup the last run returned.
\<close>

record mobile_load =
  load_plan :: Plan
  cancelled :: bool
  settled :: bool

record mobile_map =
  routeSegments :: "RouteSegment list"
  isLoadingRoute :: bool
  loads :: "mobile_load list"
  cleanup :: "nat option"

definition mobile_init :: mobile_map where
  "mobile_init = \<lparr> routeSegments = [], isLoadingRoute = False, loads = [], cleanup = None \<rparr>"

definition mobile_cleanup :: "mobile_map \<Rightarrow> mobile_map" where
  "mobile_cleanup st =
     (case cleanup st of
        None \<Rightarrow> st
      | Some k \<Rightarrow> st\<lparr> loads := (loads st)[k := (loads st ! k)\<lparr> cancelled := True \<rparr>] \<rparr>)"

definition mobile_effect :: "mobile_map \<Rightarrow> Plan option \<Rightarrow> mobile_map" where
  "mobile_effect st selectedRoute =
     (let st = mobile_cleanup st
      in case selectedRoute of
           Some plan \<Rightarrow>
             st\<lparr> isLoadingRoute := True,
                 loads := loads st @ [\<lparr> load_plan = plan, cancelled = False, settled = False \<rparr>],
                 cleanup := Some (length (loads st)) \<rparr>
         | None \<Rightarrow> st\<lparr> routeSegments := [], cleanup := None \<rparr>)"

definition mobile_resolved ::
  "osrm_service \<Rightarrow> trip_stops_service \<Rightarrow> Stop list \<Rightarrow> mobile_map \<Rightarrow> nat \<Rightarrow> mobile_map" where
  "mobile_resolved osrm api allStops st k =
     (if k < length (loads st) \<and> \<not> settled (loads st ! k)
      then (let load = loads st ! k;
                segments = convertPlanToSegments osrm api allStops (load_plan load);
                st = st\<lparr> loads := (loads st)[k := load\<lparr> settled := True \<rparr>] \<rparr>
            in if \<not> cancelled load
               then st\<lparr> routeSegments := segments, isLoadingRoute := False \<rparr>
               else st)
      else st)"

fun mobile_step ::
  "osrm_service \<Rightarrow> trip_stops_service \<Rightarrow> Stop list \<Rightarrow> mobile_map \<Rightarrow> Plan option event \<Rightarrow> mobile_map" where
  "mobile_step osrm api allStops st (Props selectedRoute) = mobile_effect st selectedRoute"
| "mobile_step osrm api allStops st (Resolved k) = mobile_resolved osrm api allStops st k"

definition mobile_run ::
  "osrm_service \<Rightarrow> trip_stops_service \<Rightarrow> Stop list \<Rightarrow> Plan option event list \<Rightarrow> mobile_map" where
  "mobile_run osrm api allStops events = foldl (mobile_step osrm api allStops) mobile_init events"

text \<open>
  Web (app/components/Map.tsx). The effect starts \<open>generateShuttleRoute\<close> and applies its
  result in \<open>then\<close>, the empty list in \<open>catch\<close>; it returns no cleanup and keeps no flag.
\<close>

record web_load =
  load_userLocation :: RoutePoint
  load_selectedLocation :: Location
  web_settled :: bool

record web_map =
  web_routeSegments :: "WebRouteSegment list"
  web_isLoadingRoute :: bool
  web_loads :: "web_load list"

definition web_init :: web_map where
  "web_init = \<lparr> web_routeSegments = [], web_isLoadingRoute = False, web_loads = [] \<rparr>"

definition web_effect :: "web_map \<Rightarrow> RoutePoint option \<times> Location option \<Rightarrow> web_map" where
  "web_effect st props =
     (case props of
        (Some userLocation, Some selectedLocation) \<Rightarrow>
          st\<lparr> web_isLoadingRoute := True,
              web_loads := web_loads st @
                [\<lparr> load_userLocation = userLocation, load_selectedLocation = selectedLocation,
                   web_settled = False \<rparr>] \<rparr>
      | _ \<Rightarrow> st\<lparr> web_routeSegments := [] \<rparr>)"

definition web_resolved ::
  "double_arith \<Rightarrow> osrm_service \<Rightarrow> BusStop list \<Rightarrow> web_map \<Rightarrow> nat \<Rightarrow> web_map" where
  "web_resolved fp osrm catalog st k =
     (if k < length (web_loads st) \<and> \<not> web_settled (web_loads st ! k)
      then (let load = web_loads st ! k;
                st = st\<lparr> web_loads := (web_loads st)[k := load\<lparr> web_settled := True \<rparr>] \<rparr>
            in case generateShuttleRoute fp osrm catalog (load_userLocation load)
                      (load_selectedLocation load) of
                 Inr segs \<Rightarrow> st\<lparr> web_routeSegments := segs, web_isLoadingRoute := False \<rparr>
               | Inl error \<Rightarrow> st\<lparr> web_isLoadingRoute := False, web_routeSegments := [] \<rparr>)
      else st)"

fun web_step ::
  "double_arith \<Rightarrow> osrm_service \<Rightarrow> BusStop list \<Rightarrow> web_map
     \<Rightarrow> (RoutePoint option \<times> Location option) event \<Rightarrow> web_map" where
  "web_step fp osrm catalog st (Props props) = web_effect st props"
| "web_step fp osrm catalog st (Resolved k) = web_resolved fp osrm catalog st k"

definition web_run ::
  "double_arith \<Rightarrow> osrm_service \<Rightarrow> BusStop list
     \<Rightarrow> (RoutePoint option \<times> Location option) event list \<Rightarrow> web_map" where
  "web_run fp osrm catalog events = foldl (web_step fp osrm catalog) web_init events"

text \<open>The segments the web component displays for a settled resolution.\<close>

definition shown :: "js_error + WebRouteSegment list \<Rightarrow> WebRouteSegment list" where
  "shown r = (case r of Inr segs \<Rightarrow> segs | Inl error \<Rightarrow> [])"

text \<open>Invariant of the mobile component: every load but the one of the last run is cancelled.\<close>

definition superseded_cancelled :: "mobile_map \<Rightarrow> bool" where
  "superseded_cancelled st =
     ((\<forall>k<length (loads st). cleanup st \<noteq> Some k \<longrightarrow> cancelled (loads st ! k)) \<and>
      (\<forall>k. cleanup st = Some k \<longrightarrow> k < length (loads st)))"

section \<open>Properties of the timeline layout\<close>


lemma finite_positive_Fin [simp]: "finite_positive (Fin a) = (0 < a)"
  by (simp add: finite_positive_def)

lemma fin_val_Fin [simp]: "fin_val (Fin a) = a"
  by (simp add: fin_val_def)












lemma js_le_Fin [simp]: "js_le (Fin a) (Fin b) = (a \<le> b)"
  by (auto simp: js_le_def js_eq_def)

lemma width_seg_width [simp]: "width (seg_width f s) = Fin (f s)"
  by (simp add: seg_width_def)




subsection \<open>Zero-duration legs\<close>

text \<open>
  C1. The claim: a leg of duration 0 is laid out as if its duration were at least 1, and no
  leg ever gets a width of 0 or NaN, in particular when a transit leg has duration 0 and
  the other legs have positive durations. The code guards only the total: for the plan with a
  transit leg of 0 minutes and a walk leg of 10 minutes (estimate 10), the smallest transit
  width is 0, the scale factor is \<open>15 / 0 = Infinity\<close>, and the widths computed are NaN for the
  transit leg and \<open>Infinity\<close> for the walk leg.
\<close>

theorem zero_duration_transit_leg_width_NaN:
  "timeline_widths \<lparr> estimated_duration_minutes = Fin 10,
                     segments = [mk_segment Transit (Fin 0), mk_segment Walk (Fin 10)] \<rparr>
     = [NaN, PosInf]"
  by (simp add: timeline_widths_def finalWidths_def finalWidths_of_def adjusted_def
      adjustedWidths_def scaledWidths_def scaleFactor_def smallestTransitWidth_def
      trueProportionalWidths_def safeTotalDuration_def option_totalDuration_def
      totalWidth_def math_min_def math_min2_def math_max2_def js_gt_def js_eq_def
      or_zero_def mk_segment_def MIN_TRANSIT_WIDTH_PERCENT_def MIN_WALK_WIDTH_PERCENT_def
      signed_inf_def)

section \<open>Properties of the distance\<close>

text \<open>Both functions compute the haversine term and then the great-circle distance from it.\<close>

lemma calculateDistance_term:
  "calculateDistance fp (lat1, lng1) (lat2, lng2)
     = great_circle fp 6371 (haversine_term fp lat1 lng1 lat2 lng2)"
  by (simp only: calculateDistance_def haversine_term_def great_circle_def Let_def prod.case)

lemma calculateWalkingTime_term:
  "calculateWalkingTime fp lat1 lon1 lat2 lon2
     = math_round (n_div fp (great_circle fp 6371000 (haversine_term fp lat1 lon1 lat2 lon2)) (Fin 80))"
  by (simp only: calculateWalkingTime_def haversine_term_def great_circle_def Let_def)

lemma math_atan2_NaN_right [simp]: "math_atan2 fp y NaN = NaN"
  by (cases y) simp_all

lemma js_lt_NaN_right [simp]: "js_lt x NaN = False"
  by (cases x) simp_all

lemma great_circle_NaN:
  assumes "round_d fp (1 - a) < 0"
  shows "great_circle fp R a = NaN"
  using assms by (simp add: great_circle_def math_sqrt_def d_sub_def n_mul_def)

lemma great_circle_cases: "great_circle fp R a = NaN \<or> (\<exists>d. great_circle fp R a = Fin d)"
  by (auto simp: great_circle_def math_sqrt_def n_mul_def)

text \<open>
  Over the reals the haversine term lies in \<open>[0, 1]\<close>, for all coordinates; so in exact
  arithmetic no square root is taken of a negative number, and the distance is symmetric,
  zero from a point to itself and never negative.
\<close>

lemma cos_times_cos_half:
  fixes p1 p2 :: real
  shows "cos p1 * cos p2 = (cos ((p1 + p2) / 2))\<^sup>2 - (sin ((p2 - p1) / 2))\<^sup>2"
proof -
  have "cos p1 * cos p2 = (cos (p1 - p2) + cos (p1 + p2)) / 2"
    by (rule cos_times_cos)
  moreover have "cos (p1 - p2) = 1 - 2 * (sin ((p2 - p1) / 2))\<^sup>2"
  proof -
    have e: "2 * ((p2 - p1) / 2) = p2 - p1" by simp
    have "cos (p1 - p2) = cos (p2 - p1)"
      using cos_minus [of "p2 - p1"] by simp
    also have "\<dots> = 1 - 2 * (sin ((p2 - p1) / 2))\<^sup>2"
      using cos_double_sin [of "(p2 - p1) / 2"] by (simp only: e)
    finally show ?thesis .
  qed
  moreover have "cos (p1 + p2) = 2 * (cos ((p1 + p2) / 2))\<^sup>2 - 1"
  proof -
    have e: "2 * ((p1 + p2) / 2) = p1 + p2" by simp
    show ?thesis
      using cos_double_cos [of "(p1 + p2) / 2"] by (simp only: e)
  qed
  ultimately show ?thesis by simp
qed

lemma hav_form:
  fixes p1 p2 u :: real
  shows "sin ((p2 - p1) / 2) * sin ((p2 - p1) / 2) + cos p1 * cos p2 * sin u * sin u
           = (sin ((p2 - p1) / 2))\<^sup>2 * (cos u)\<^sup>2 + (cos ((p1 + p2) / 2))\<^sup>2 * (sin u)\<^sup>2"
proof -
  define a b s where "a = sin ((p2 - p1) / 2)" and "b = cos ((p1 + p2) / 2)" and "s = sin u"
  have c: "(cos u)\<^sup>2 = 1 - s\<^sup>2"
    unfolding s_def by (rule cos_squared_eq)
  have p: "cos p1 * cos p2 = b\<^sup>2 - a\<^sup>2"
    unfolding a_def b_def by (rule cos_times_cos_half)
  have "a * a + (b\<^sup>2 - a\<^sup>2) * s * s = a\<^sup>2 * (1 - s\<^sup>2) + b\<^sup>2 * s\<^sup>2"
    by (simp add: power2_eq_square algebra_simps)
  then show ?thesis
    unfolding p c unfolding a_def b_def s_def .
qed

lemma hav_form_bounds:
  fixes A B u :: real
  shows "0 \<le> (sin A)\<^sup>2 * (cos u)\<^sup>2 + (cos B)\<^sup>2 * (sin u)\<^sup>2"
    and "(sin A)\<^sup>2 * (cos u)\<^sup>2 + (cos B)\<^sup>2 * (sin u)\<^sup>2 \<le> 1"
proof -
  show "0 \<le> (sin A)\<^sup>2 * (cos u)\<^sup>2 + (cos B)\<^sup>2 * (sin u)\<^sup>2" by simp
  have sA: "(sin A)\<^sup>2 \<le> 1"
    using sin_cos_squared_add [of A] zero_le_power2 [of "cos A"] by linarith
  have cB: "(cos B)\<^sup>2 \<le> 1"
    using sin_cos_squared_add [of B] zero_le_power2 [of "sin B"] by linarith
  have "(sin A)\<^sup>2 * (cos u)\<^sup>2 \<le> 1 * (cos u)\<^sup>2"
    using sA by (rule mult_right_mono) simp
  moreover have "(cos B)\<^sup>2 * (sin u)\<^sup>2 \<le> 1 * (sin u)\<^sup>2"
    using cB by (rule mult_right_mono) simp
  ultimately show "(sin A)\<^sup>2 * (cos u)\<^sup>2 + (cos B)\<^sup>2 * (sin u)\<^sup>2 \<le> 1"
    using sin_cos_squared_add [of u] by linarith
qed

lemma hav_bounds: "0 \<le> hav lat1 lng1 lat2 lng2" "hav lat1 lng1 lat2 lng2 \<le> 1"
proof -
  have d: "((lat2 - lat1) * pi) / 180 / 2 = ((lat2 * pi) / 180 - (lat1 * pi) / 180) / 2"
    by (simp add: left_diff_distrib diff_divide_distrib)
  have "hav lat1 lng1 lat2 lng2 =
      (sin (((lat2 * pi) / 180 - (lat1 * pi) / 180) / 2))\<^sup>2 * (cos (((lng2 - lng1) * pi) / 180 / 2))\<^sup>2 +
      (cos (((lat1 * pi) / 180 + (lat2 * pi) / 180) / 2))\<^sup>2 * (sin (((lng2 - lng1) * pi) / 180 / 2))\<^sup>2"
    unfolding hav_def d by (rule hav_form)
  then show "0 \<le> hav lat1 lng1 lat2 lng2" "hav lat1 lng1 lat2 lng2 \<le> 1"
    using hav_form_bounds by simp_all
qed

lemma hav_sym: "hav lat1 lng1 lat2 lng2 = hav lat2 lng2 lat1 lng1"
proof -
  have "((lat1 - lat2) * pi) / 180 / 2 = - (((lat2 - lat1) * pi) / 180 / 2)"
       "((lng1 - lng2) * pi) / 180 / 2 = - (((lng2 - lng1) * pi) / 180 / 2)"
    by (simp_all add: left_diff_distrib diff_divide_distrib)
  then show ?thesis
    unfolding hav_def by (simp only: sin_minus minus_mult_minus mult_ac)
qed

lemma hav_same: "hav lat1 lng1 lat1 lng1 = 0"
  by (simp add: hav_def)

lemma central_angle_nonneg:
  assumes "0 \<le> a" "a \<le> 1"
  shows "0 \<le> central_angle a"
  using assms by (simp add: central_angle_def zero_le_arctan_iff)

lemma central_angle_0: "central_angle 0 = 0"
  by (simp add: central_angle_def)

lemma haversine_term_exact:
  "haversine_term exact_arith lat1 lng1 lat2 lng2 = hav lat1 lng1 lat2 lng2"
  by (simp only: haversine_term_def hav_def Let_def exact_arith_def d_add_def d_sub_def
      d_mul_def d_div_def double_arith.simps)

lemma great_circle_exact:
  assumes "0 \<le> a" "a \<le> 1"
  shows "great_circle exact_arith R a = Fin (R * central_angle a)"
proof -
  have "0 \<le> sqrt a" "0 \<le> sqrt (1 - a)" using assms by simp_all
  then show ?thesis
    using assms
    by (auto simp: great_circle_def math_sqrt_def n_mul_def d_mul_def d_sub_def exact_arith_def
        atan2_real_def central_angle_def)
qed

lemma calculateDistance_exact:
  "calculateDistance exact_arith (lat1, lng1) (lat2, lng2)
     = Fin (6371 * central_angle (hav lat1 lng1 lat2 lng2))"
  by (simp only: calculateDistance_term haversine_term_exact great_circle_exact [OF hav_bounds])

lemma calculateWalkingTime_exact:
  "calculateWalkingTime exact_arith lat1 lon1 lat2 lon2
     = Fin (of_int \<lfloor>6371000 * central_angle (hav lat1 lon1 lat2 lon2) / 80 + 1 / 2\<rfloor>)"
proof -
  have g: "great_circle exact_arith 6371000 (haversine_term exact_arith lat1 lon1 lat2 lon2)
      = Fin (6371000 * central_angle (hav lat1 lon1 lat2 lon2))"
    by (simp only: haversine_term_exact great_circle_exact [OF hav_bounds])
  show ?thesis
    unfolding calculateWalkingTime_term g
    by (simp add: n_div_def d_div_def exact_arith_def math_round_def)
qed

lemma exact_distance_symmetric_zero_nonneg:
  "calculateDistance exact_arith a b = calculateDistance exact_arith b a \<and>
   calculateDistance exact_arith a a = Fin 0 \<and>
   js_le (Fin 0) (calculateDistance exact_arith a b)"
proof -
  obtain a1 a2 b1 b2 where ab: "a = (a1, a2)" "b = (b1, b2)"
    by (cases a, cases b) auto
  have sym: "calculateDistance exact_arith a b = calculateDistance exact_arith b a"
    unfolding ab calculateDistance_exact by (simp only: hav_sym [of a1 a2 b1 b2])
  have zero: "calculateDistance exact_arith a a = Fin 0"
    unfolding ab calculateDistance_exact by (simp add: hav_same central_angle_0)
  have nonneg: "js_le (Fin 0) (calculateDistance exact_arith a b)"
    unfolding ab calculateDistance_exact
    using central_angle_nonneg [OF hav_bounds, of a1 a2 b1 b2] by simp
  from sym zero nonneg show ?thesis by blast
qed

lemma haversine_term_upward_sine:
  "haversine_term upward_sine_arith 0 0 0 180 = (1 + 1 / 2 ^ 53) * (1 + 1 / 2 ^ 53)"
  by (simp add: haversine_term_def upward_sine_arith_def exact_arith_def d_add_def d_sub_def
      d_mul_def d_div_def)

text \<open>
  C9. The claim: for all points the distance is symmetric, zero from a point to itself and
  never negative. In doubles the haversine term of near-antipodal points rounds above 1
  (it is 1.0000000000000002 for \<open>(0.08, 0)\<close> and \<open>(-0.08, 180)\<close>). Then \<open>1 - a\<close> is negative,
  its square root is NaN, and the distance and the walking time are NaN: not \<open>>= 0\<close>, and
  not \<open>==\<close> to the distance computed the other way round.
\<close>

theorem distance_NaN_when_term_exceeds_one:
  "round_d fp (1 - haversine_term fp lat1 lng1 lat2 lng2) < 0 \<longrightarrow>
     calculateDistance fp (lat1, lng1) (lat2, lng2) = NaN \<and>
     \<not> js_le (Fin 0) (calculateDistance fp (lat1, lng1) (lat2, lng2)) \<and>
     \<not> js_eq (calculateDistance fp (lat1, lng1) (lat2, lng2))
              (calculateDistance fp (lat2, lng2) (lat1, lng1)) \<and>
     calculateWalkingTime fp lat1 lng1 lat2 lng2 = NaN \<and>
     \<not> js_le (Fin 0) (calculateWalkingTime fp lat1 lng1 lat2 lng2) \<and>
     \<not> js_eq (calculateWalkingTime fp lat1 lng1 lat2 lng2)
              (calculateWalkingTime fp lat2 lng2 lat1 lng1)"
proof
  assume neg: "round_d fp (1 - haversine_term fp lat1 lng1 lat2 lng2) < 0"
  have d: "calculateDistance fp (lat1, lng1) (lat2, lng2) = NaN"
    by (simp only: calculateDistance_term great_circle_NaN [OF neg])
  have w: "calculateWalkingTime fp lat1 lng1 lat2 lng2 = NaN"
    by (simp add: calculateWalkingTime_term great_circle_NaN [OF neg] n_div_def math_round_def)
  show "calculateDistance fp (lat1, lng1) (lat2, lng2) = NaN \<and>
     \<not> js_le (Fin 0) (calculateDistance fp (lat1, lng1) (lat2, lng2)) \<and>
     \<not> js_eq (calculateDistance fp (lat1, lng1) (lat2, lng2))
              (calculateDistance fp (lat2, lng2) (lat1, lng1)) \<and>
     calculateWalkingTime fp lat1 lng1 lat2 lng2 = NaN \<and>
     \<not> js_le (Fin 0) (calculateWalkingTime fp lat1 lng1 lat2 lng2) \<and>
     \<not> js_eq (calculateWalkingTime fp lat1 lng1 lat2 lng2)
              (calculateWalkingTime fp lat2 lng2 lat1 lng1)"
    by (simp add: d w js_le_def js_eq_def)
qed

text \<open>The theorem at the antipodal points \<open>(0, 0)\<close> and \<open>(0, 180)\<close>, with the sine that errs upwards.\<close>

theorem distance_NaN_when_term_exceeds_one_witness:
  "round_d upward_sine_arith (1 - haversine_term upward_sine_arith 0 0 0 180) < 0 \<and>
   calculateDistance upward_sine_arith (0, 0) (0, 180) = NaN \<and>
   \<not> js_le (Fin 0) (calculateDistance upward_sine_arith (0, 0) (0, 180)) \<and>
   \<not> js_eq (calculateDistance upward_sine_arith (0, 0) (0, 180))
            (calculateDistance upward_sine_arith (0, 180) (0, 0)) \<and>
   calculateWalkingTime upward_sine_arith 0 0 0 180 = NaN"
proof -
  have h: "round_d upward_sine_arith (1 - haversine_term upward_sine_arith 0 0 0 180) < 0"
    by (simp add: haversine_term_upward_sine) (simp add: upward_sine_arith_def exact_arith_def)
  from h distance_NaN_when_term_exceeds_one [of upward_sine_arith 0 0 0 180]
  show ?thesis by blast
qed

section \<open>Properties of the nearest-stop lookup\<close>

text \<open>
  A computed distance is finite or NaN. Against a NaN minimum no stop is nearer, so the
  scan keeps the stop it holds; over finite distances it finds the first minimum.
\<close>

lemma calculateDistance_cases:
  "calculateDistance fp p q = NaN \<or> (\<exists>d. calculateDistance fp p q = Fin d)"
  by (cases p, cases q) (simp only: calculateDistance_term great_circle_cases)

lemma nearest_loop_NaN: "nearest_loop fp p xs b NaN = b"
  by (induction xs) (simp_all add: Let_def)

lemma nearest_loop_member: "nearest_loop fp p xs b m \<in> insert b (set xs)"
  by (induction xs arbitrary: b m) (auto simp: Let_def)

lemma first_min_Cons_0:
  "first_min d (x # xs) 0 = (\<forall>y\<in>set xs. d x \<le> d y)"
  by (auto simp: first_min_def all_set_conv_all_nth less_Suc_eq_0_disj)

lemma first_min_Cons_Suc:
  "first_min d (x # xs) (Suc i) = (first_min d xs i \<and> d (xs ! i) < d x)"
  by (auto simp: first_min_def less_Suc_eq_0_disj)

lemma nearest_loop_spec:
  assumes "\<forall>y\<in>set xs. calculateDistance fp p (lat y, lng y) = Fin (d y)"
  shows "(nearest_loop fp p xs b (Fin m) = b \<and> (\<forall>y\<in>set xs. m \<le> d y)) \<or>
         (\<exists>i. nearest_loop fp p xs b (Fin m) = xs ! i \<and> first_min d xs i \<and> d (xs ! i) < m)"
  using assms
proof (induction xs arbitrary: b m)
  case Nil
  then show ?case by simp
next
  case (Cons x xs)
  have dx: "calculateDistance fp p (lat x, lng x) = Fin (d x)"
    using Cons.prems by simp
  have rest: "\<forall>y\<in>set xs. calculateDistance fp p (lat y, lng y) = Fin (d y)"
    using Cons.prems by simp
  show ?case
  proof (cases "d x < m")
    case True
    from Cons.IH [OF rest, of x "d x"] show ?thesis
    proof
      assume "nearest_loop fp p xs x (Fin (d x)) = x \<and> (\<forall>y\<in>set xs. d x \<le> d y)"
      then have "nearest_loop fp p (x # xs) b (Fin m) = (x # xs) ! 0"
          "first_min d (x # xs) 0" "d ((x # xs) ! 0) < m"
        using True by (simp_all add: dx first_min_Cons_0)
      then show ?thesis by blast
    next
      assume "\<exists>i. nearest_loop fp p xs x (Fin (d x)) = xs ! i \<and> first_min d xs i \<and> d (xs ! i) < d x"
      then obtain i where i: "nearest_loop fp p xs x (Fin (d x)) = xs ! i"
          "first_min d xs i" "d (xs ! i) < d x"
        by blast
      then have "nearest_loop fp p (x # xs) b (Fin m) = (x # xs) ! Suc i"
          "first_min d (x # xs) (Suc i)" "d ((x # xs) ! Suc i) < m"
        using True by (simp_all add: dx first_min_Cons_Suc)
      then show ?thesis by blast
    qed
  next
    case False
    from Cons.IH [OF rest, of b m] show ?thesis
    proof
      assume "nearest_loop fp p xs b (Fin m) = b \<and> (\<forall>y\<in>set xs. m \<le> d y)"
      then show ?thesis using False by (simp add: dx)
    next
      assume "\<exists>i. nearest_loop fp p xs b (Fin m) = xs ! i \<and> first_min d xs i \<and> d (xs ! i) < m"
      then obtain i where i: "nearest_loop fp p xs b (Fin m) = xs ! i"
          "first_min d xs i" "d (xs ! i) < m"
        by blast
      then have "nearest_loop fp p (x # xs) b (Fin m) = (x # xs) ! Suc i"
          "first_min d (x # xs) (Suc i)" "d ((x # xs) ! Suc i) < m"
        using False by (simp_all add: dx first_min_Cons_Suc)
      then show ?thesis by blast
    qed
  qed
qed

lemma findNearestBusStop_first_min:
  assumes "catalog \<noteq> []"
    and "\<forall>y\<in>set catalog. calculateDistance fp p (lat y, lng y) = Fin (d y)"
  shows "\<exists>i. findNearestBusStop fp catalog p = Inr (catalog ! i) \<and> first_min d catalog i"
proof -
  from assms(1) obtain s rest where c: "catalog = s # rest" by (cases catalog) auto
  have ds: "calculateDistance fp p (lat s, lng s) = Fin (d s)"
    using assms(2) c by simp
  have f: "findNearestBusStop fp catalog p = Inr (nearest_loop fp p catalog s (Fin (d s)))"
    by (simp add: findNearestBusStop_def c ds)
  from nearest_loop_spec [OF assms(2), of s "d s"] show ?thesis
  proof
    assume "nearest_loop fp p catalog s (Fin (d s)) = s \<and> (\<forall>y\<in>set catalog. d s \<le> d y)"
    then have "findNearestBusStop fp catalog p = Inr (catalog ! 0)" "first_min d catalog 0"
      unfolding f by (simp_all add: c first_min_Cons_0)
    then show ?thesis by blast
  next
    assume "\<exists>i. nearest_loop fp p catalog s (Fin (d s)) = catalog ! i \<and>
               first_min d catalog i \<and> d (catalog ! i) < d s"
    then show ?thesis using f by auto
  qed
qed

lemma findNearestBusStop_member:
  assumes "catalog \<noteq> []"
  shows "\<exists>s\<in>set catalog. findNearestBusStop fp catalog p = Inr s"
proof -
  from assms obtain s rest where c: "catalog = s # rest" by (cases catalog) auto
  have "nearest_loop fp p catalog s (calculateDistance fp p (lat s, lng s)) \<in> insert s (set catalog)"
    by (rule nearest_loop_member)
  then show ?thesis by (simp add: findNearestBusStop_def c)
qed

lemma findNearestBusStop_NaN:
  assumes "calculateDistance fp p (lat s, lng s) = NaN"
  shows "findNearestBusStop fp (s # rest) p = Inr s"
  using assms by (simp add: findNearestBusStop_def nearest_loop_NaN Let_def)

text \<open>
  C7. The lookup fails exactly on the empty catalog: reading \<open>lat\<close> of \<open>BUS_STOPS[0]\<close> throws
  a TypeError, which is the error of the empty catalog, and \<open>generateShuttleRoute\<close>,
  its caller, fails with it. On every non-empty catalog the lookup returns a stop of the
  catalog, and the caller returns its segments. This holds in every arithmetic.
\<close>

theorem nearest_fails_only_on_empty_catalog:
  "(findNearestBusStop fp catalog p = Inl TypeError \<longleftrightarrow> catalog = []) \<and>
   (catalog \<noteq> [] \<longrightarrow> (\<exists>s\<in>set catalog. findNearestBusStop fp catalog p = Inr s)) \<and>
   (catalog = [] \<longrightarrow> generateShuttleRoute fp osrm catalog p destination = Inl TypeError) \<and>
   (catalog \<noteq> [] \<longrightarrow> (\<exists>segs. generateShuttleRoute fp osrm catalog p destination = Inr segs))"
proof -
  have ne: "\<exists>s\<in>set catalog. findNearestBusStop fp catalog p = Inr s" if c: "catalog \<noteq> []"
    using c by (rule findNearestBusStop_member)
  have e: "findNearestBusStop fp [] p = Inl TypeError"
    by (simp add: findNearestBusStop_def)
  have iff: "findNearestBusStop fp catalog p = Inl TypeError \<longleftrightarrow> catalog = []"
    using ne e by (cases "catalog = []") auto
  have g1: "generateShuttleRoute fp osrm catalog p destination = Inl TypeError" if "catalog = []"
    using that e by (simp add: generateShuttleRoute_def)
  have g2: "\<exists>segs. generateShuttleRoute fp osrm catalog p destination = Inr segs" if "catalog \<noteq> []"
    using ne [OF that] by (auto simp: generateShuttleRoute_def Let_def)
  from iff ne g1 g2 show ?thesis by blast
qed

text \<open>The theorem at the shipped catalog and at the empty one.\<close>

theorem nearest_fails_only_on_empty_catalog_witness:
  "BUS_STOPS \<noteq> [] \<and>
   (\<exists>s\<in>set BUS_STOPS. findNearestBusStop exact_arith BUS_STOPS (40.73, -73.99) = Inr s) \<and>
   (\<exists>segs. generateShuttleRoute exact_arith (\<lambda>a b c d. FetchRejected) BUS_STOPS (40.73, -73.99)
             \<lparr> loc_id = ''paulson-center'', loc_name = ''Paulson Center'',
               lat = 40.7296, lng = -73.9962 \<rparr> = Inr segs) \<and>
   generateShuttleRoute exact_arith (\<lambda>a b c d. FetchRejected) [] (40.73, -73.99)
     \<lparr> loc_id = ''paulson-center'', loc_name = ''Paulson Center'',
       lat = 40.7296, lng = -73.9962 \<rparr> = Inl TypeError"
proof -
  have h: "BUS_STOPS \<noteq> []" by (simp add: BUS_STOPS_def)
  note t = nearest_fails_only_on_empty_catalog [of exact_arith BUS_STOPS "(40.73, -73.99)"
      "\<lambda>a b c d. FetchRejected"
      "\<lparr> loc_id = ''paulson-center'', loc_name = ''Paulson Center'', lat = 40.7296, lng = -73.9962 \<rparr>"]
  note t0 = nearest_fails_only_on_empty_catalog [of exact_arith "[]" "(40.73, -73.99)"
      "\<lambda>a b c d. FetchRejected"
      "\<lparr> loc_id = ''paulson-center'', loc_name = ''Paulson Center'', lat = 40.7296, lng = -73.9962 \<rparr>"]
  from h t t0 show ?thesis by blast
qed

lemma stop_distance_exact_not_NaN: "stop_distance exact_arith p s \<noteq> NaN"
  by (cases p) (simp add: stop_distance_def calculateDistance_exact)

text \<open>
  C8. The claim: on a non-empty catalog the lookup returns a stop that minimises the
  distance to the query point, the first one among equals. When the distance to the first
  stop of the catalog is NaN (its haversine term rounds above 1, as in C9), every comparison
  \<open>distance < minDistance\<close> is false and the first stop is returned whatever the distances
  to the other stops, although its distance is \<open><=\<close> no distance. When no computed distance
  is NaN, the lookup returns the stop at the first index of a minimum.
\<close>

theorem nearest_keeps_first_stop_on_NaN:
  "(round_d fp (1 - haversine_term fp (fst p) (snd p) (lat s) (lng s)) < 0 \<longrightarrow>
      stop_distance fp p s = NaN) \<and>
   (stop_distance fp p s = NaN \<longrightarrow>
      findNearestBusStop fp (s # rest) p = Inr s \<and>
      (\<forall>y. \<not> js_le (stop_distance fp p s) (stop_distance fp p y))) \<and>
   (catalog \<noteq> [] \<and> (\<forall>y\<in>set catalog. stop_distance fp p y \<noteq> NaN) \<longrightarrow>
      (\<exists>i<length catalog.
         findNearestBusStop fp catalog p = Inr (catalog ! i) \<and>
         (\<forall>j<length catalog.
            js_le (stop_distance fp p (catalog ! i)) (stop_distance fp p (catalog ! j))) \<and>
         (\<forall>j<i. js_lt (stop_distance fp p (catalog ! i)) (stop_distance fp p (catalog ! j)))))"
proof -
  have a: "stop_distance fp p s = NaN"
    if "round_d fp (1 - haversine_term fp (fst p) (snd p) (lat s) (lng s)) < 0"
    using great_circle_NaN [OF that, of 6371]
    by (cases p) (simp add: stop_distance_def calculateDistance_term)
  have b: "findNearestBusStop fp (s # rest) p = Inr s \<and>
      (\<forall>y. \<not> js_le (stop_distance fp p s) (stop_distance fp p y))"
    if n: "stop_distance fp p s = NaN"
  proof -
    have "findNearestBusStop fp (s # rest) p = Inr s"
      using n by (simp add: findNearestBusStop_NaN stop_distance_def)
    moreover have "\<not> js_le (stop_distance fp p s) (stop_distance fp p y)" for y
      by (simp add: n js_le_def js_eq_def)
    ultimately show ?thesis by blast
  qed
  have c: "\<exists>i<length catalog.
         findNearestBusStop fp catalog p = Inr (catalog ! i) \<and>
         (\<forall>j<length catalog.
            js_le (stop_distance fp p (catalog ! i)) (stop_distance fp p (catalog ! j))) \<and>
         (\<forall>j<i. js_lt (stop_distance fp p (catalog ! i)) (stop_distance fp p (catalog ! j)))"
    if h: "catalog \<noteq> [] \<and> (\<forall>y\<in>set catalog. stop_distance fp p y \<noteq> NaN)"
  proof -
    define d where "d y = fin_val (stop_distance fp p y)" for y
    have fin: "stop_distance fp p y = Fin (d y)" if "y \<in> set catalog" for y
      using h that calculateDistance_cases [of fp p "(lat y, lng y)"]
      by (auto simp: d_def stop_distance_def)
    then have "\<forall>y\<in>set catalog. calculateDistance fp p (lat y, lng y) = Fin (d y)"
      by (simp add: stop_distance_def)
    with h obtain i where i: "findNearestBusStop fp catalog p = Inr (catalog ! i)"
        "first_min d catalog i"
      using findNearestBusStop_first_min [of catalog fp p d] by blast
    have len: "i < length catalog" using i(2) by (simp add: first_min_def)
    have le: "js_le (stop_distance fp p (catalog ! i)) (stop_distance fp p (catalog ! j))"
      if "j < length catalog" for j
      using i(2) that len by (simp add: fin first_min_def)
    have lt: "js_lt (stop_distance fp p (catalog ! i)) (stop_distance fp p (catalog ! j))"
      if "j < i" for j
      using i(2) that len by (simp add: fin first_min_def)
    from i(1) len le lt show ?thesis by blast
  qed
  from a b c show ?thesis by blast
qed

text \<open>
  The theorem at the catalog \<open>[X, A]\<close> and the point \<open>(0, 0)\<close>, where \<open>A\<close> is the point itself and
  \<open>X\<close> its antipode, with the sine that errs upwards; and at the shipped catalog in exact
  arithmetic.
\<close>

theorem nearest_keeps_first_stop_on_NaN_witness:
  "round_d upward_sine_arith
     (1 - haversine_term upward_sine_arith (fst (0, 0)) (snd (0, 0))
            (lat antipode_stop) (lng antipode_stop)) < 0 \<and>
   stop_distance upward_sine_arith (0, 0) antipode_stop = NaN \<and>
   stop_distance upward_sine_arith (0, 0) facility_A = Fin 0 \<and>
   findNearestBusStop upward_sine_arith [antipode_stop, facility_A] (0, 0) = Inr antipode_stop \<and>
   BUS_STOPS \<noteq> [] \<and>
   list_all (\<lambda>y. stop_distance exact_arith (40.73, -73.99) y \<noteq> NaN) BUS_STOPS \<and>
   (\<exists>i<length BUS_STOPS.
      findNearestBusStop exact_arith BUS_STOPS (40.73, -73.99) = Inr (BUS_STOPS ! i) \<and>
      (\<forall>j<length BUS_STOPS.
         js_le (stop_distance exact_arith (40.73, -73.99) (BUS_STOPS ! i))
               (stop_distance exact_arith (40.73, -73.99) (BUS_STOPS ! j))) \<and>
      (\<forall>j<i. js_lt (stop_distance exact_arith (40.73, -73.99) (BUS_STOPS ! i))
                   (stop_distance exact_arith (40.73, -73.99) (BUS_STOPS ! j))))"
proof -
  have h: "round_d upward_sine_arith
     (1 - haversine_term upward_sine_arith (fst (0, 0)) (snd (0, 0))
            (lat antipode_stop) (lng antipode_stop)) < 0"
    by (simp add: antipode_stop_def haversine_term_upward_sine)
      (simp add: upward_sine_arith_def exact_arith_def)
  note bad = nearest_keeps_first_stop_on_NaN
    [of upward_sine_arith "(0, 0)" antipode_stop "[facility_A]" "[]"]
  from bad h have n: "stop_distance upward_sine_arith (0, 0) antipode_stop = NaN"
    by blast
  from bad n have r: "findNearestBusStop upward_sine_arith [antipode_stop, facility_A] (0, 0)
      = Inr antipode_stop"
    by blast
  have z: "stop_distance upward_sine_arith (0, 0) facility_A = Fin 0"
    by (simp add: stop_distance_def calculateDistance_term great_circle_def haversine_term_def
        facility_A_def upward_sine_arith_def exact_arith_def d_add_def d_sub_def d_mul_def
        d_div_def math_sqrt_def n_mul_def atan2_real_def)
  have ne: "BUS_STOPS \<noteq> []" by (simp add: BUS_STOPS_def)
  have fin: "\<forall>y\<in>set BUS_STOPS. stop_distance exact_arith (40.73, -73.99) y \<noteq> NaN"
    by (simp add: stop_distance_exact_not_NaN)
  note good = nearest_keeps_first_stop_on_NaN
    [of exact_arith "(40.73, -73.99)" "hd BUS_STOPS" "tl BUS_STOPS" BUS_STOPS]
  from good ne fin have g: "\<exists>i<length BUS_STOPS.
      findNearestBusStop exact_arith BUS_STOPS (40.73, -73.99) = Inr (BUS_STOPS ! i) \<and>
      (\<forall>j<length BUS_STOPS.
         js_le (stop_distance exact_arith (40.73, -73.99) (BUS_STOPS ! i))
               (stop_distance exact_arith (40.73, -73.99) (BUS_STOPS ! j))) \<and>
      (\<forall>j<i. js_lt (stop_distance exact_arith (40.73, -73.99) (BUS_STOPS ! i))
                   (stop_distance exact_arith (40.73, -73.99) (BUS_STOPS ! j)))"
    by blast
  from fin have l: "list_all (\<lambda>y. stop_distance exact_arith (40.73, -73.99) y \<noteq> NaN) BUS_STOPS"
    by (simp add: list_all_iff)
  from h n z r ne l g show ?thesis by blast
qed

text \<open>In exact arithmetic the catalog \<open>[A, B]\<close> of the example gives \<open>A\<close> at the point \<open>(0, 0)\<close>.\<close>

lemma exact_nearest_example:
  "findNearestBusStop exact_arith [facility_A, facility_B] (0, 0) = Inr facility_A"
proof -
  define d where "d y = fin_val (stop_distance exact_arith (0, 0) y)" for y
  have fin: "calculateDistance exact_arith (0, 0) (lat y, lng y) = Fin (d y)" for y
    by (simp add: d_def stop_distance_def calculateDistance_exact)
  obtain i where i: "findNearestBusStop exact_arith [facility_A, facility_B] (0, 0)
        = Inr ([facility_A, facility_B] ! i)"
      "first_min d [facility_A, facility_B] i"
    using findNearestBusStop_first_min [of "[facility_A, facility_B]" exact_arith "(0, 0)" d] fin
    by auto
  have zero: "d facility_A = 0"
    by (simp add: d_def stop_distance_def calculateDistance_exact facility_A_def hav_same
        central_angle_0)
  have nonneg: "0 \<le> d y" for y
    using central_angle_nonneg [OF hav_bounds]
    by (simp add: d_def stop_distance_def calculateDistance_exact)
  have "i = 0"
  proof (rule ccontr)
    assume "i \<noteq> 0"
    then have "d ([facility_A, facility_B] ! i) < d facility_A"
      using i(2) by (auto simp: first_min_def)
    then show False using nonneg [of "[facility_A, facility_B] ! i"] by (simp add: zero)
  qed
  then show ?thesis using i(1) by simp
qed

section \<open>Properties of the clients\<close>

lemma osrm_failed_iff:
  "osrm_failed reply \<longleftrightarrow> (\<exists>error. osrm_coordinates reply = Inl error)"
  by (auto simp: osrm_failed_def osrm_coordinates_def
      split: http_reply.splits option.splits list.splits)

lemma osrm_failed_coordinates:
  assumes "osrm_failed reply"
  shows "\<exists>error. osrm_coordinates reply = Inl error"
  using assms by (simp add: osrm_failed_iff)

lemma fetchOSRMRoute_failed:
  assumes "osrm_failed (osrm fromLon fromLat toLon toLat)"
  shows "fetchOSRMRoute osrm fromLat fromLon toLat toLon =
           [\<lparr> latitude = fromLat, longitude = fromLon \<rparr>, \<lparr> latitude = toLat, longitude = toLon \<rparr>]"
  using osrm_failed_coordinates [OF assms] by (auto simp: fetchOSRMRoute_def)

lemma fetchRouteFromOSRM_failed:
  assumes "osrm_failed (osrm (snd start) (fst start) (snd end') (fst end'))"
  shows "fetchRouteFromOSRM osrm start end' = [start, end']"
  using osrm_failed_coordinates [OF assms]
  by (cases start, cases end') (auto simp: fetchRouteFromOSRM_def)

lemma slice_from_1: "slice_from xs 1 = tl xs"
  by (cases xs) (simp_all add: slice_from_def slice_def)

lemma slice_take_drop:
  assumes "i \<le> j" "j < length xs"
  shows "slice xs (int i) (int j + 1) = take (Suc j - i) (drop i xs)"
proof -
  have "nat (int j + 1 - int i) = Suc j - i" using assms by linarith
  then show ?thesis
    using assms by (simp add: slice_def min_def)
qed

lemma findIndex_from_cases:
  "(findIndex_from P xs k = - 1 \<and> (\<forall>x\<in>set xs. \<not> P x)) \<or>
   (\<exists>i<length xs. findIndex_from P xs k = k + int i \<and> P (xs ! i) \<and> (\<forall>j<i. \<not> P (xs ! j)))"
proof (induction xs arbitrary: k)
  case Nil
  then show ?case by simp
next
  case (Cons x xs)
  show ?case
  proof (cases "P x")
    case True
    then have "findIndex_from P (x # xs) k = k + int 0 \<and> P ((x # xs) ! 0) \<and>
        (\<forall>j<0. \<not> P ((x # xs) ! j))" by simp
    then show ?thesis by blast
  next
    case False
    from Cons.IH [of "k + 1"] show ?thesis
    proof
      assume "findIndex_from P xs (k + 1) = - 1 \<and> (\<forall>x\<in>set xs. \<not> P x)"
      then show ?thesis using False by simp
    next
      assume "\<exists>i<length xs. findIndex_from P xs (k + 1) = k + 1 + int i \<and> P (xs ! i) \<and>
                (\<forall>j<i. \<not> P (xs ! j))"
      then obtain i where i: "i < length xs" "findIndex_from P xs (k + 1) = k + 1 + int i"
          "P (xs ! i)" "\<forall>j<i. \<not> P (xs ! j)" by blast
      have "Suc i < length (x # xs)" "findIndex_from P (x # xs) k = k + int (Suc i)"
          "P ((x # xs) ! Suc i)" "\<forall>j<Suc i. \<not> P ((x # xs) ! j)"
        using i False by (auto simp: less_Suc_eq_0_disj)
      then show ?thesis by blast
    qed
  qed
qed

lemma findIndex_absent:
  assumes "\<forall>x\<in>set xs. \<not> P x"
  shows "findIndex P xs = - 1"
  using findIndex_from_cases [of P xs 0] assms
  by (auto simp: findIndex_def)

lemma findIndex_first_index:
  assumes "first_index P xs i"
  shows "findIndex P xs = int i"
proof -
  from findIndex_from_cases [of P xs 0] show ?thesis
  proof
    assume "findIndex_from P xs 0 = - 1 \<and> (\<forall>x\<in>set xs. \<not> P x)"
    then show ?thesis using assms by (auto simp: first_index_def)
  next
    assume "\<exists>k<length xs. findIndex_from P xs 0 = 0 + int k \<and> P (xs ! k) \<and> (\<forall>j<k. \<not> P (xs ! j))"
    then obtain k where k: "k < length xs" "findIndex_from P xs 0 = int k" "P (xs ! k)"
        "\<forall>j<k. \<not> P (xs ! j)" by auto
    have "k = i"
      using k assms by (meson first_index_def linorder_neqE_nat)
    then show ?thesis using k by (simp add: findIndex_def)
  qed
qed

lemma first_index_exists:
  assumes "\<exists>x\<in>set xs. P x"
  shows "\<exists>i. first_index P xs i"
  using findIndex_from_cases [of P xs 0] assms by (auto simp: first_index_def)

lemma getTripStops_total: "\<exists>tripStops. getTripStops api tripId = Inr tripStops"
  by (simp add: getTripStops_def split: sum.splits)

lemma getTripStops_failed:
  assumes "lookup_failed (api tripId)"
  shows "getTripStops api tripId = Inr []"
  using assms
  by (auto simp: lookup_failed_def getTripStops_def getTripStops_try_def
      split: http_reply.splits option.splits)

lemma endpoint_stops_cases:
  "endpoint_stops fromStopId toStopId allStops =
     (case find (\<lambda>s. stop_id s = fromStopId) allStops of None \<Rightarrow> [] | Some s \<Rightarrow> [s]) @
     (case find (\<lambda>s. stop_id s = toStopId) allStops of None \<Rightarrow> [] | Some s \<Rightarrow> [s])"
  by (simp add: endpoint_stops_def split: option.splits)

lemma length_endpoint_stops: "length (endpoint_stops fromStopId toStopId allStops) \<le> 2"
  by (simp add: endpoint_stops_cases split: option.splits)

lemma getStopsBetween_fallback:
  assumes "getTripStops api tripId = Inr tripStops"
    and "tripStops = [] \<or> fromStopId \<notin> stop_id ` set tripStops \<or> toStopId \<notin> stop_id ` set tripStops"
  shows "getStopsBetween api tripId fromStopId toStopId allStops
           = Inr (endpoint_stops fromStopId toStopId allStops)"
proof (cases "tripStops = []")
  case True
  then show ?thesis
    using assms(1) by (simp add: getStopsBetween_def getStopsBetween_try_def)
next
  case False
  with assms(2) have "(\<forall>x\<in>set tripStops. \<not> stop_id x = fromStopId) \<or>
      (\<forall>x\<in>set tripStops. \<not> stop_id x = toStopId)" by auto
  then have "findIndex (\<lambda>s. stop_id s = fromStopId) tripStops = - 1 \<or>
      findIndex (\<lambda>s. stop_id s = toStopId) tripStops = - 1"
    using findIndex_absent [of tripStops "\<lambda>s. stop_id s = fromStopId"]
      findIndex_absent [of tripStops "\<lambda>s. stop_id s = toStopId"] by blast
  then show ?thesis
    using assms(1) False
    by (auto simp: getStopsBetween_def getStopsBetween_try_def Let_def)
qed

lemma getStopsBetween_found:
  assumes "getTripStops api tripId = Inr tripStops"
    and i: "first_index (\<lambda>s. stop_id s = fromStopId) tripStops i"
    and j: "first_index (\<lambda>s. stop_id s = toStopId) tripStops j"
  shows "getStopsBetween api tripId fromStopId toStopId allStops
           = Inr (if i \<le> j then take (Suc j - i) (drop i tripStops)
                  else rev (take (Suc i - j) (drop j tripStops)))"
proof -
  have ne: "tripStops \<noteq> []" using i by (auto simp: first_index_def)
  have lt: "i < length tripStops" "j < length tripStops"
    using i j by (simp_all add: first_index_def)
  have fi: "findIndex (\<lambda>s. stop_id s = fromStopId) tripStops = int i"
    and fj: "findIndex (\<lambda>s. stop_id s = toStopId) tripStops = int j"
    using i j by (simp_all add: findIndex_first_index)
  show ?thesis
  proof (cases "i \<le> j")
    case True
    then show ?thesis
      using assms(1) ne lt
      by (simp add: getStopsBetween_def getStopsBetween_try_def fi fj slice_take_drop)
  next
    case False
    then have "j \<le> i" by simp
    then show ?thesis
      using assms(1) ne lt False
      by (simp add: getStopsBetween_def getStopsBetween_try_def fi fj slice_take_drop)
  qed
qed

text \<open>
  C10. \<open>getStopsBetween\<close> always returns. When the lookup fails the trip listing is
  empty; when the listing is empty or lacks one of the two ids, the result is the origin
  stop and the destination stop found in the catalog, origin first, each left out when
  absent; otherwise it is the inclusive slice between the first occurrences of the two
  ids, reversed when the destination comes first.
\<close>

theorem getStopsBetween_never_throws:
  "(\<exists>result. getStopsBetween api tripId fromStopId toStopId allStops = Inr result) \<and>
   (\<exists>tripStops. getTripStops api tripId = Inr tripStops) \<and>
   (lookup_failed (api tripId) \<longrightarrow> getTripStops api tripId = Inr []) \<and>
   (\<forall>tripStops. getTripStops api tripId = Inr tripStops \<longrightarrow>
      (tripStops = [] \<or> fromStopId \<notin> stop_id ` set tripStops \<or> toStopId \<notin> stop_id ` set tripStops \<longrightarrow>
         getStopsBetween api tripId fromStopId toStopId allStops =
           Inr ((case find (\<lambda>s. stop_id s = fromStopId) allStops of None \<Rightarrow> [] | Some s \<Rightarrow> [s]) @
                (case find (\<lambda>s. stop_id s = toStopId) allStops of None \<Rightarrow> [] | Some s \<Rightarrow> [s])) \<and>
         length ((case find (\<lambda>s. stop_id s = fromStopId) allStops of None \<Rightarrow> [] | Some s \<Rightarrow> [s]) @
                 (case find (\<lambda>s. stop_id s = toStopId) allStops of None \<Rightarrow> [] | Some s \<Rightarrow> [s])) \<le> 2) \<and>
      (\<not> (tripStops = [] \<or> fromStopId \<notin> stop_id ` set tripStops \<or> toStopId \<notin> stop_id ` set tripStops) \<longrightarrow>
         (\<exists>i j. first_index (\<lambda>s. stop_id s = fromStopId) tripStops i \<and>
                first_index (\<lambda>s. stop_id s = toStopId) tripStops j)) \<and>
      (\<forall>i j. first_index (\<lambda>s. stop_id s = fromStopId) tripStops i \<and>
             first_index (\<lambda>s. stop_id s = toStopId) tripStops j \<longrightarrow>
             getStopsBetween api tripId fromStopId toStopId allStops =
               Inr (if i \<le> j then take (Suc j - i) (drop i tripStops)
                    else rev (take (Suc i - j) (drop j tripStops)))))"
proof -
  obtain ts where ts: "getTripStops api tripId = Inr ts"
    using getTripStops_total by blast
  have failed: "getTripStops api tripId = Inr []" if "lookup_failed (api tripId)"
    using getTripStops_failed [of api tripId] that by simp
  have fb: "getStopsBetween api tripId fromStopId toStopId allStops =
           Inr ((case find (\<lambda>s. stop_id s = fromStopId) allStops of None \<Rightarrow> [] | Some s \<Rightarrow> [s]) @
                (case find (\<lambda>s. stop_id s = toStopId) allStops of None \<Rightarrow> [] | Some s \<Rightarrow> [s]))"
    if "getTripStops api tripId = Inr tripStops"
      "tripStops = [] \<or> fromStopId \<notin> stop_id ` set tripStops \<or> toStopId \<notin> stop_id ` set tripStops"
    for tripStops
    using getStopsBetween_fallback [OF that] by (simp only: endpoint_stops_cases)
  have len: "length ((case find (\<lambda>s. stop_id s = fromStopId) allStops of None \<Rightarrow> [] | Some s \<Rightarrow> [s]) @
                 (case find (\<lambda>s. stop_id s = toStopId) allStops of None \<Rightarrow> [] | Some s \<Rightarrow> [s])) \<le> 2"
    using length_endpoint_stops [of fromStopId toStopId allStops]
    by (simp only: endpoint_stops_cases)
  have ex: "\<exists>i j. first_index (\<lambda>s. stop_id s = fromStopId) tripStops i \<and>
                first_index (\<lambda>s. stop_id s = toStopId) tripStops j"
    if n: "\<not> (tripStops = [] \<or> fromStopId \<notin> stop_id ` set tripStops \<or> toStopId \<notin> stop_id ` set tripStops)"
    for tripStops
  proof -
    from n have "\<exists>x\<in>set tripStops. stop_id x = fromStopId" "\<exists>x\<in>set tripStops. stop_id x = toStopId"
      by auto
    then show ?thesis
      using first_index_exists [of tripStops "\<lambda>s. stop_id s = fromStopId"]
        first_index_exists [of tripStops "\<lambda>s. stop_id s = toStopId"] by blast
  qed
  have found: "getStopsBetween api tripId fromStopId toStopId allStops =
               Inr (if i \<le> j then take (Suc j - i) (drop i tripStops)
                    else rev (take (Suc i - j) (drop j tripStops)))"
    if "getTripStops api tripId = Inr tripStops"
      "first_index (\<lambda>s. stop_id s = fromStopId) tripStops i"
      "first_index (\<lambda>s. stop_id s = toStopId) tripStops j" for tripStops i j
    using getStopsBetween_found [OF that] .
  have total: "\<exists>result. getStopsBetween api tripId fromStopId toStopId allStops = Inr result"
  proof (cases "ts = [] \<or> fromStopId \<notin> stop_id ` set ts \<or> toStopId \<notin> stop_id ` set ts")
    case True
    then show ?thesis using fb [OF ts] by blast
  next
    case False
    then obtain i j where "first_index (\<lambda>s. stop_id s = fromStopId) ts i"
        "first_index (\<lambda>s. stop_id s = toStopId) ts j"
      using ex by blast
    then show ?thesis using found [OF ts] by blast
  qed
  from total ts failed fb len ex found show ?thesis by blast
qed

text \<open>The theorem at a rejected lookup (trip 8) and at a listing walked backwards (trip 7).\<close>

theorem getStopsBetween_never_throws_witness:
  "lookup_failed (example_api 8) \<and>
   getStopsBetween example_api 8 5 1 example_trip = Inr [mk_stop 1 0 0] \<and>
   getTripStops example_api 7 = Inr example_trip \<and>
   first_index (\<lambda>s. stop_id s = 4) example_trip 3 \<and>
   first_index (\<lambda>s. stop_id s = 2) example_trip 1 \<and>
   getStopsBetween example_api 7 4 2 [] = Inr [mk_stop 4 0 4, mk_stop 3 0 3, mk_stop 2 0 2]"
proof -
  have f: "lookup_failed (example_api 8)"
    by (simp add: lookup_failed_def example_api_def)
  note t8 = getStopsBetween_never_throws [of example_api 8 5 1 example_trip]
  from t8 f have g8: "getTripStops example_api 8 = Inr []" by blast
  from t8 g8 have "getStopsBetween example_api 8 5 1 example_trip =
      Inr ((case find (\<lambda>s. stop_id s = 5) example_trip of None \<Rightarrow> [] | Some s \<Rightarrow> [s]) @
           (case find (\<lambda>s. stop_id s = 1) example_trip of None \<Rightarrow> [] | Some s \<Rightarrow> [s]))"
    by blast
  then have r8: "getStopsBetween example_api 8 5 1 example_trip = Inr [mk_stop 1 0 0]"
    by (simp add: example_trip_def mk_stop_def)
  have g7: "getTripStops example_api 7 = Inr example_trip"
    by (simp add: getTripStops_def getTripStops_try_def example_api_def)
  have i: "first_index (\<lambda>s. stop_id s = 4) example_trip 3"
    and j: "first_index (\<lambda>s. stop_id s = 2) example_trip 1"
    by (simp_all add: first_index_def example_trip_def mk_stop_def less_Suc_eq numeral_3_eq_3)
  note t7 = getStopsBetween_never_throws [of example_api 7 4 2 "[]"]
  from t7 g7 i j have "getStopsBetween example_api 7 4 2 [] =
      Inr (if (3::nat) \<le> 1 then take (Suc 1 - 3) (drop 3 example_trip)
           else rev (take (Suc 3 - 1) (drop 1 example_trip)))"
    by blast
  then have r7: "getStopsBetween example_api 7 4 2 [] = Inr [mk_stop 4 0 4, mk_stop 3 0 3, mk_stop 2 0 2]"
    by (simp add: example_trip_def numeral_3_eq_3)
  from f r8 g7 i j r7 show ?thesis by blast
qed

declare stitch_loop.simps [simp del]

lemma stitch_loop_step:
  assumes "Suc i < length routeStops"
  shows "stitch_loop osrm routeStops i allPoints =
           stitch_loop osrm routeStops (Suc i)
             (allPoints @ (if i = 0 then sub_polyline osrm routeStops i
                           else tl (sub_polyline osrm routeStops i)))"
  using assms
  by (subst stitch_loop.simps) (simp add: sub_polyline_def slice_from_1 Let_def)

lemma stitch_loop_stop:
  assumes "\<not> Suc i < length routeStops"
  shows "stitch_loop osrm routeStops i allPoints = allPoints"
  using assms by (subst stitch_loop.simps) auto

lemma stitch_loop_eq:
  "stitch_loop osrm routeStops i allPoints =
     allPoints @ concat (map (\<lambda>k. if k = 0 then sub_polyline osrm routeStops k
                                   else tl (sub_polyline osrm routeStops k))
                           [i..<length routeStops - 1])"
proof (induction osrm routeStops i allPoints rule: stitch_loop.induct)
  case (1 osrm routeStops i allPoints)
  let ?f = "\<lambda>k. if k = 0 then sub_polyline osrm routeStops k
                 else tl (sub_polyline osrm routeStops k)"
  show ?case
  proof (cases "Suc i < length routeStops")
    case True
    then have lt: "int i < int (length routeStops) - 1" by simp
    have up: "[i..<length routeStops - 1] = i # [Suc i..<length routeStops - 1]"
      using True by (simp add: upt_conv_Cons)
    have ih: "stitch_loop osrm routeStops (Suc i) (allPoints @ ?f i)
          = (allPoints @ ?f i) @ concat (map ?f [Suc i..<length routeStops - 1])"
      using "1.IH" [OF lt refl refl refl]
      by (simp only: sub_polyline_def slice_from_1 Suc_eq_plus1)
    have "stitch_loop osrm routeStops i allPoints
          = stitch_loop osrm routeStops (Suc i) (allPoints @ ?f i)"
      by (rule stitch_loop_step [OF True])
    also have "\<dots> = (allPoints @ ?f i) @ concat (map ?f [Suc i..<length routeStops - 1])"
      by (rule ih)
    also have "\<dots> = allPoints @ concat (map ?f [i..<length routeStops - 1])"
      unfolding up by simp
    finally show ?thesis .
  next
    case False
    then show ?thesis by (simp add: stitch_loop_stop)
  qed
qed

lemma stitch_loop_sub_polylines:
  assumes "2 \<le> length routeStops"
  shows "stitch_loop osrm routeStops 0 [] =
           hd (sub_polylines osrm routeStops) @ concat (map tl (tl (sub_polylines osrm routeStops)))"
proof -
  let ?f = "\<lambda>k. if k = 0 then sub_polyline osrm routeStops k
                 else tl (sub_polyline osrm routeStops k)"
  have up: "[0..<length routeStops - 1] = 0 # [Suc 0..<length routeStops - 1]"
    using assms by (simp add: upt_conv_Cons)
  have m: "map ?f [Suc 0..<length routeStops - 1]
        = map tl (map (sub_polyline osrm routeStops) [Suc 0..<length routeStops - 1])"
    by simp
  have "stitch_loop osrm routeStops 0 [] = concat (map ?f [0..<length routeStops - 1])"
    by (simp only: stitch_loop_eq append_Nil)
  also have "\<dots> = sub_polyline osrm routeStops 0 @ concat (map ?f [Suc 0..<length routeStops - 1])"
    unfolding up by simp
  also have "\<dots> = hd (sub_polylines osrm routeStops) @
      concat (map tl (tl (sub_polylines osrm routeStops)))"
    unfolding m sub_polylines_def up by simp
  finally show ?thesis .
qed





lemma convert_segment_stitched:
  assumes "seg_type segment = Transit"
    and "truthy (trip_id segment)" "truthy (from_stop_id segment)" "truthy (to_stop_id segment)"
    and "getStopsBetween api (id_value (trip_id segment)) (id_value (from_stop_id segment))
           (id_value (to_stop_id segment)) allStops = Inr routeStops"
    and "2 \<le> length routeStops"
  shows "points (convert_segment osrm api allStops segment) = stitch_loop osrm routeStops 0 []"
  using assms by (simp add: convert_segment_def)

text \<open>
  C3. Stitching a transit leg over \<open>N \<ge> 2\<close> stops yields the first sub-polyline followed by
  every later sub-polyline without its first point; this is the polyline of the converted
  leg. For three stops whose sub-polylines are \<open>[(0,0),(0,1),(0,2)]\<close> and \<open>[(0,2),(0,3)]\<close>
  the result is \<open>[(0,0),(0,1),(0,2),(0,3)]\<close>, of length 4.
\<close>

theorem stitch_omits_duplicate_points:
  "(2 \<le> length routeStops \<longrightarrow>
      stitch_loop osrm routeStops 0 [] =
        hd (sub_polylines osrm routeStops) @ concat (map tl (tl (sub_polylines osrm routeStops)))) \<and>
   (seg_type segment = Transit \<and> truthy (trip_id segment) \<and> truthy (from_stop_id segment) \<and>
    truthy (to_stop_id segment) \<and>
    getStopsBetween api (id_value (trip_id segment)) (id_value (from_stop_id segment))
      (id_value (to_stop_id segment)) allStops = Inr routeStops \<and>
    2 \<le> length routeStops \<longrightarrow>
      points (convert_segment osrm api allStops segment) =
        hd (sub_polylines osrm routeStops) @ concat (map tl (tl (sub_polylines osrm routeStops)))) \<and>
   (sub_polylines osrm [s0, s1, s2] = [[pt 0 0, pt 0 1, pt 0 2], [pt 0 2, pt 0 3]] \<longrightarrow>
      stitch_loop osrm [s0, s1, s2] 0 [] = [pt 0 0, pt 0 1, pt 0 2, pt 0 3] \<and>
      length (stitch_loop osrm [s0, s1, s2] 0 []) = 4)"
proof -
  have a: "stitch_loop osrm rs 0 [] =
        hd (sub_polylines osrm rs) @ concat (map tl (tl (sub_polylines osrm rs)))"
    if "2 \<le> length rs" for rs
    using that by (rule stitch_loop_sub_polylines)
  have b: "points (convert_segment osrm api allStops segment) =
        hd (sub_polylines osrm routeStops) @ concat (map tl (tl (sub_polylines osrm routeStops)))"
    if "seg_type segment = Transit \<and> truthy (trip_id segment) \<and> truthy (from_stop_id segment) \<and>
        truthy (to_stop_id segment) \<and>
        getStopsBetween api (id_value (trip_id segment)) (id_value (from_stop_id segment))
          (id_value (to_stop_id segment)) allStops = Inr routeStops \<and>
        2 \<le> length routeStops"
    using that by (simp add: convert_segment_stitched a)
  have c: "stitch_loop osrm [s0, s1, s2] 0 [] = [pt 0 0, pt 0 1, pt 0 2, pt 0 3] \<and>
      length (stitch_loop osrm [s0, s1, s2] 0 []) = 4"
    if "sub_polylines osrm [s0, s1, s2] = [[pt 0 0, pt 0 1, pt 0 2], [pt 0 2, pt 0 3]]"
    using a [of "[s0, s1, s2]"] that by simp
  from a b c show ?thesis by blast
qed

text \<open>The theorem at the example: trip 7 from stop 1 to stop 3, with the example service.\<close>

theorem stitch_omits_duplicate_points_witness:
  "getStopsBetween example_api 7 1 3 [] = Inr [mk_stop 1 0 0, mk_stop 2 0 2, mk_stop 3 0 3] \<and>
   sub_polylines example_osrm [mk_stop 1 0 0, mk_stop 2 0 2, mk_stop 3 0 3]
     = [[pt 0 0, pt 0 1, pt 0 2], [pt 0 2, pt 0 3]] \<and>
   points (convert_segment example_osrm example_api [] (transit_leg 7 1 3))
     = [pt 0 0, pt 0 1, pt 0 2, pt 0 3] \<and>
   stitch_loop example_osrm [mk_stop 1 0 0, mk_stop 2 0 2, mk_stop 3 0 3] 0 []
     = [pt 0 0, pt 0 1, pt 0 2, pt 0 3] \<and>
   length (stitch_loop example_osrm [mk_stop 1 0 0, mk_stop 2 0 2, mk_stop 3 0 3] 0 []) = 4"
proof -
  let ?rs = "[mk_stop 1 0 0, mk_stop 2 0 2, mk_stop 3 0 3]"
  have g: "getStopsBetween example_api 7 1 3 [] = Inr ?rs"
    by (simp add: getStopsBetween_def getStopsBetween_try_def getTripStops_def
        getTripStops_try_def example_api_def example_trip_def findIndex_def slice_def mk_stop_def)
  have u: "[0..<Suc (Suc 0)] = [0, Suc 0]" by (simp add: upt_rec)
  have p: "sub_polylines example_osrm ?rs = [[pt 0 0, pt 0 1, pt 0 2], [pt 0 2, pt 0 3]]"
    by (simp add: sub_polylines_def sub_polyline_def fetchOSRMRoute_def osrm_coordinates_def
        example_osrm_def mk_stop_def pt_def u)
  have l: "2 \<le> length ?rs" by simp
  have t: "seg_type (transit_leg 7 1 3) = Transit" "truthy (trip_id (transit_leg 7 1 3))"
      "truthy (from_stop_id (transit_leg 7 1 3))" "truthy (to_stop_id (transit_leg 7 1 3))"
      "id_value (trip_id (transit_leg 7 1 3)) = 7" "id_value (from_stop_id (transit_leg 7 1 3)) = 1"
      "id_value (to_stop_id (transit_leg 7 1 3)) = 3"
    by (simp_all add: transit_leg_def mk_segment_def truthy_def id_value_def)
  note inst = stitch_omits_duplicate_points [of ?rs example_osrm "transit_leg 7 1 3" example_api "[]"
      "mk_stop 1 0 0" "mk_stop 2 0 2" "mk_stop 3 0 3"]
  from inst p have s: "stitch_loop example_osrm ?rs 0 [] = [pt 0 0, pt 0 1, pt 0 2, pt 0 3]"
      "length (stitch_loop example_osrm ?rs 0 []) = 4"
    by blast+
  from inst g l t(1-4) have "points (convert_segment example_osrm example_api [] (transit_leg 7 1 3)) =
      hd (sub_polylines example_osrm ?rs) @ concat (map tl (tl (sub_polylines example_osrm ?rs)))"
    unfolding t(5-7) by blast
  then have c: "points (convert_segment example_osrm example_api [] (transit_leg 7 1 3))
     = [pt 0 0, pt 0 1, pt 0 2, pt 0 3]"
    by (simp add: p)
  from g p c s show ?thesis by blast
qed

lemma stitch_loop_length_mono:
  "length allPoints \<le> length (stitch_loop osrm routeStops i allPoints)"
  by (simp add: stitch_loop_eq)

lemma sub_polyline_failed:
  assumes "\<forall>a b c d. osrm_failed (osrm a b c d)"
  shows "length (sub_polyline osrm rs i) = 2"
  using assms by (simp add: sub_polyline_def fetchOSRMRoute_failed)

lemma stitch_loop_failed:
  assumes f: "\<forall>a b c d. osrm_failed (osrm a b c d)" and n: "2 \<le> length rs"
  shows "2 \<le> length (stitch_loop osrm rs 0 [])"
proof -
  have s: "Suc 0 < length rs" using n by simp
  have "stitch_loop osrm rs 0 [] = stitch_loop osrm rs (Suc 0) (sub_polyline osrm rs 0)"
    using stitch_loop_step [OF s, of osrm "[]"] by simp
  then show ?thesis
    using stitch_loop_length_mono [of "sub_polyline osrm rs 0" osrm rs "Suc 0"]
      sub_polyline_failed [OF f, of rs 0] by simp
qed

lemma convert_segment_failed:
  assumes f: "\<forall>a b c d. osrm_failed (osrm a b c d)"
  shows "2 \<le> length (points (convert_segment osrm api allStops segment))"
proof -
  have d: "length (fetchOSRMRoute osrm a b c d) = 2" for a b c d
    using f by (simp add: fetchOSRMRoute_failed)
  show ?thesis
    using d stitch_loop_failed [OF f]
    by (auto simp: convert_segment_def direct_transit_def
        split: segment_type.splits sum.splits)
qed

lemma convertPlanToSegments_map:
  "convertPlanToSegments osrm api allStops plan
     = map (convert_segment osrm api allStops) (segments plan)"
proof -
  have "foldl (\<lambda>acc segment. acc @ [f segment]) a xs = a @ map f xs"
    for f :: "PlanSegment \<Rightarrow> RouteSegment" and a xs
    by (induction xs arbitrary: a) simp_all
  then show ?thesis by (simp add: convertPlanToSegments_def)
qed

text \<open>
  C5. When the routing call fails, the fetch of either client returns the two endpoints.
  When every call fails, the resolver still returns one segment per leg, each with at
  least 2 points.
\<close>

theorem fallback_guarantee:
  "(osrm_failed (osrm fromLon fromLat toLon toLat) \<longrightarrow>
      fetchOSRMRoute osrm fromLat fromLon toLat toLon
        = [\<lparr> latitude = fromLat, longitude = fromLon \<rparr>, \<lparr> latitude = toLat, longitude = toLon \<rparr>]) \<and>
   (osrm_failed (osrm (snd start) (fst start) (snd end') (fst end')) \<longrightarrow>
      fetchRouteFromOSRM osrm start end' = [start, end']) \<and>
   ((\<forall>a b c d. osrm_failed (osrm a b c d)) \<longrightarrow>
      length (convertPlanToSegments osrm api allStops plan) = length (segments plan) \<and>
      (\<forall>seg\<in>set (convertPlanToSegments osrm api allStops plan). 2 \<le> length (points seg)))"
proof -
  have a: "fetchOSRMRoute osrm fromLat fromLon toLat toLon
        = [\<lparr> latitude = fromLat, longitude = fromLon \<rparr>, \<lparr> latitude = toLat, longitude = toLon \<rparr>]"
    if "osrm_failed (osrm fromLon fromLat toLon toLat)"
    using that by (rule fetchOSRMRoute_failed)
  have b: "fetchRouteFromOSRM osrm start end' = [start, end']"
    if "osrm_failed (osrm (snd start) (fst start) (snd end') (fst end'))"
    using that by (rule fetchRouteFromOSRM_failed)
  have c: "length (convertPlanToSegments osrm api allStops plan) = length (segments plan) \<and>
      (\<forall>seg\<in>set (convertPlanToSegments osrm api allStops plan). 2 \<le> length (points seg))"
    if "\<forall>a b c d. osrm_failed (osrm a b c d)"
    using convert_segment_failed [OF that]
    by (simp add: convertPlanToSegments_map)
  from a b c show ?thesis by blast
qed

text \<open>The theorem at a service that rejects every request.\<close>

theorem fallback_guarantee_witness:
  "(\<forall>a b c d. osrm_failed (failing_osrm a b c d)) \<and>
   fetchOSRMRoute failing_osrm 1 2 3 4 = [pt 1 2, pt 3 4] \<and>
   fetchRouteFromOSRM failing_osrm (1, 2) (3, 4) = [(1, 2), (3, 4)] \<and>
   length (convertPlanToSegments failing_osrm example_api [] example_plan) = 2 \<and>
   list_all (\<lambda>seg. 2 \<le> length (points seg))
     (convertPlanToSegments failing_osrm example_api [] example_plan)"
proof -
  have f: "\<forall>a b c d. osrm_failed (failing_osrm a b c d)"
    by (simp add: osrm_failed_def failing_osrm_def)
  have n: "length (segments example_plan) = 2"
    by (simp add: example_plan_def)
  note inst = fallback_guarantee [of failing_osrm 2 1 4 3 "(1, 2)" "(3, 4)" example_api "[]" example_plan]
  from inst f have "fetchOSRMRoute failing_osrm 1 2 3 4
        = [\<lparr> latitude = 1, longitude = 2 \<rparr>, \<lparr> latitude = 3, longitude = 4 \<rparr>]"
    by blast
  then have a: "fetchOSRMRoute failing_osrm 1 2 3 4 = [pt 1 2, pt 3 4]"
    by (simp add: pt_def)
  from inst f have b: "fetchRouteFromOSRM failing_osrm (1, 2) (3, 4) = [(1, 2), (3, 4)]"
    by simp
  from inst f have c: "length (convertPlanToSegments failing_osrm example_api [] example_plan)
        = length (segments example_plan) \<and>
      (\<forall>seg\<in>set (convertPlanToSegments failing_osrm example_api [] example_plan).
         2 \<le> length (points seg))"
    by blast
  from f a b c n show ?thesis by (simp add: list_all_iff)
qed




section \<open>Stale resolutions\<close>

text \<open>
  C6. The claim: a resolution superseded by a newer itinerary, or by clearing the
  itinerary, is never applied. The web component applies it: when destination \<open>a\<close> is
  selected, then \<open>b\<close>, and the resolution for \<open>b\<close> completes before the one for \<open>a\<close>,
  the segments displayed are those of \<open>a\<close>; when \<open>a\<close> is selected, then nothing, the
  segments of \<open>a\<close> are displayed once its resolution completes.
\<close>

theorem web_map_applies_stale_route:
  "web_routeSegments (web_run fp osrm catalog
      [Props (Some u, Some a), Props (Some u, Some b), Resolved 1, Resolved 0])
     = shown (generateShuttleRoute fp osrm catalog u a) \<and>
   web_routeSegments (web_run fp osrm catalog
      [Props (Some u, Some a), Props (Some u, None), Resolved 0])
     = shown (generateShuttleRoute fp osrm catalog u a)"
  by (cases "generateShuttleRoute fp osrm catalog u a"; cases "generateShuttleRoute fp osrm catalog u b")
    (simp_all add: web_run_def web_init_def web_effect_def web_resolved_def shown_def Let_def)

text \<open>
  The mobile component on the same events displays the route of \<open>b\<close>, and nothing after
  clearing; in every run, the resolution of a load that is not the one of the last effect
  run leaves the displayed segments unchanged.
\<close>

lemma mobile_discards_on_example:
  "routeSegments (mobile_run osrm api allStops
      [Props (Some a), Props (Some b), Resolved 1, Resolved 0])
     = convertPlanToSegments osrm api allStops b \<and>
   routeSegments (mobile_run osrm api allStops [Props (Some a), Props None, Resolved 0]) = []"
  by (simp add: mobile_run_def mobile_init_def mobile_effect_def mobile_cleanup_def
      mobile_resolved_def Let_def)

lemma mobile_cleanup_all_cancelled:
  assumes "superseded_cancelled st"
  shows "\<forall>k<length (loads (mobile_cleanup st)). cancelled (loads (mobile_cleanup st) ! k)"
    and "length (loads (mobile_cleanup st)) = length (loads st)"
    and "routeSegments (mobile_cleanup st) = routeSegments st"
  using assms
  by (auto simp: superseded_cancelled_def mobile_cleanup_def nth_list_update split: option.splits)

lemma mobile_effect_invariant:
  assumes "superseded_cancelled st"
  shows "superseded_cancelled (mobile_effect st selectedRoute)"
proof (cases selectedRoute)
  case None
  then show ?thesis
    using mobile_cleanup_all_cancelled(1) [OF assms]
    by (simp add: mobile_effect_def superseded_cancelled_def Let_def)
next
  case (Some plan)
  then show ?thesis
    using mobile_cleanup_all_cancelled(1) [OF assms]
    by (auto simp: mobile_effect_def superseded_cancelled_def Let_def nth_append)
qed

lemma mobile_resolved_invariant:
  assumes "superseded_cancelled st"
  shows "superseded_cancelled (mobile_resolved osrm api allStops st k)"
  using assms
  by (auto simp: mobile_resolved_def superseded_cancelled_def Let_def nth_list_update)

lemma mobile_step_invariant:
  assumes "superseded_cancelled st"
  shows "superseded_cancelled (mobile_step osrm api allStops st e)"
  using assms by (cases e) (simp_all add: mobile_effect_invariant mobile_resolved_invariant)

lemma mobile_run_invariant: "superseded_cancelled (mobile_run osrm api allStops events)"
proof -
  have "superseded_cancelled st \<Longrightarrow> superseded_cancelled (foldl (mobile_step osrm api allStops) st events)"
    for st
    by (induction events arbitrary: st) (simp_all add: mobile_step_invariant)
  moreover have "superseded_cancelled mobile_init"
    by (simp add: superseded_cancelled_def mobile_init_def)
  ultimately show ?thesis by (simp add: mobile_run_def)
qed

lemma mobile_map_discards_superseded:
  assumes "cleanup (mobile_run osrm api allStops events) \<noteq> Some k"
  shows "routeSegments (mobile_step osrm api allStops (mobile_run osrm api allStops events) (Resolved k))
           = routeSegments (mobile_run osrm api allStops events)"
  using assms mobile_run_invariant [of osrm api allStops events]
  by (auto simp: mobile_resolved_def superseded_cancelled_def Let_def)

end
